theory Spec2Isabelle
  imports Main
begin

section \<open>Data model of the aggregation engine (nodeAgg.c)\<close>

text \<open>
  A \<open>Datum\<close> is modelled by the value it denotes. For a pass-by-reference type the C
  \<open>Datum\<close> is a pointer; the model identifies the pointer with the value it points to, so
  \<open>datumCopy\<close> (a copy into another memory context) is the identity on values. Memory
  contexts themselves are not modelled.
\<close>

type_synonym Datum = int

record NullableDatum =
  dvalue :: Datum
  isnull :: bool

definition datumCopy :: "Datum \<Rightarrow> Datum" where
  "datumCopy d = d"

text \<open>
  \<open>FmgrInfo\<close>: the looked-up function. \<open>fn_addr\<close> takes the argument array of the call
  and returns the result datum together with the \<open>isnull\<close> flag the call leaves in its
  \<open>fcinfo\<close>.
\<close>

record FmgrInfo =
  fn_strict :: bool
  fn_addr :: "NullableDatum list \<Rightarrow> NullableDatum"

record FunctionCallInfoBaseData =
  args :: "NullableDatum list"
  fcinfo_isnull :: bool

text \<open>
  The tuplesort service is outside the source files at hand; it is used through
  \<open>tuplesort_performsort\<close>, \<open>tuplesort_getdatum\<close> and \<open>tuplesort_end\<close> only. A sort state
  holds the tuples put into it and the ordering it was begun with; \<open>tuplesort_getdatum\<close>
  hands out the next datum, its null flag and its abbreviated key.
\<close>

record SortTuple =
  datum1 :: Datum
  isnull1 :: bool
  abbrev1 :: Datum

record 'a Tuplesortstate =
  sort_order :: "'a list \<Rightarrow> 'a list"
  memtuples :: "'a list"

definition tuplesort_performsort :: "'a Tuplesortstate \<Rightarrow> 'a Tuplesortstate" where
  "tuplesort_performsort ts = ts\<lparr>memtuples := sort_order ts (memtuples ts)\<rparr>"

definition tuplesort_getdatum ::
  "SortTuple Tuplesortstate \<Rightarrow> SortTuple option \<times> SortTuple Tuplesortstate" where
  "tuplesort_getdatum ts =
     (case memtuples ts of
        [] \<Rightarrow> (None, ts)
      | t # rest \<Rightarrow> (Some t, ts\<lparr>memtuples := rest\<rparr>))"

text \<open>An \<open>Oid\<close> is a number, \<open>InvalidOid\<close> is 0.\<close>

type_synonym Oid = nat

definition InvalidOid :: Oid where
  "InvalidOid = 0"

definition OidIsValid :: "Oid \<Rightarrow> bool" where
  "OidIsValid oid = (oid \<noteq> InvalidOid)"

text \<open>\<open>AggStatePerTransData\<close>: the fields the modelled functions read or write.\<close>

record AggStatePerTransData =
  aggshared :: bool
  transfn_oid :: Oid
  serialfn_oid :: Oid
  deserialfn_oid :: Oid
  pertrans_aggtranstype :: Oid
  numInputs :: nat
  numTransInputs :: nat
  transfn :: FmgrInfo
  numSortCols :: nat
  numDistinctCols :: nat
  equalfnOne :: "Datum \<Rightarrow> Datum \<Rightarrow> bool"
  initValue :: Datum
  initValueIsNull :: bool
  inputtypeByVal :: bool
  transtypeByVal :: bool
  sortstates :: "SortTuple Tuplesortstate option list"
  transfn_fcinfo :: FunctionCallInfoBaseData

record AggStatePerGroupData =
  transValue :: Datum
  transValueIsNull :: bool
  noTransValue :: bool

text \<open>A row of plain values, as a \<open>TupleTableSlot\<close> holds it in \<open>tts_values\<close>/\<open>tts_isnull\<close>.\<close>

type_synonym HeapTuple = "NullableDatum list"

datatype AggStrategy = AGG_PLAIN | AGG_SORTED | AGG_HASHED | AGG_MIXED

text \<open>
  \<open>AggStatePerPhaseData\<close>. The \<open>Sort\<close> node of a phase is modelled by the ordering it
  asks for; \<open>None\<close> is the NULL pointer.
\<close>

record AggStatePerPhaseData =
  phase_aggstrategy :: AggStrategy
  numsets :: nat
  gset_lengths :: "nat list"
  sortnode :: "(HeapTuple list \<Rightarrow> HeapTuple list) option"

text \<open>
  Expression trees, as far as the sharing pass compares them with \<open>equal()\<close>: structural
  equality of nodes is equality of the datatype. \<open>Aggref\<close>: the fields that
  \<open>find_compatible_peragg\<close> reads (\<open>aggref_args\<close> and \<open>aggref_directargs\<close> are the
  nodes' \<open>args\<close> and \<open>aggdirectargs\<close>).
\<close>

datatype Expr = Var nat | Const Datum | FuncExpr Oid "Expr list"

record SortGroupClause =
  tleSortGroupRef :: nat
  eqop :: Oid
  sortop :: Oid
  nulls_first :: bool

record Aggref =
  aggfnoid :: Oid
  aggtype :: Oid
  aggcollid :: Oid
  inputcollid :: Oid
  aggtranstype :: Oid
  aggref_directargs :: "Expr list"
  aggref_args :: "Expr list"
  aggorder :: "SortGroupClause list"
  aggdistinct :: "SortGroupClause list"
  aggfilter :: "Expr option"
  aggstar :: bool
  aggvariadic :: bool
  aggkind :: char

text \<open>
  \<open>AggStatePerAggData\<close>. A direct-argument expression (\<open>ExprState\<close>) is modelled by the
  function of the representative input row that \<open>ExecEvalExpr\<close> computes.
\<close>

record AggStatePerAggData =
  aggref :: Aggref
  transno :: nat
  finalfn_oid :: Oid
  finalfn :: FmgrInfo
  numFinalArgs :: nat
  aggdirectargs :: "(HeapTuple \<Rightarrow> NullableDatum) list"
  resulttypeByVal :: bool
  shareable :: bool

record ExprContext =
  ecxt_outertuple :: HeapTuple

text \<open>
  A hash table of groups (\<open>TupleHashTable\<close>) is modelled by the list of its entries in
  iteration order, and its iterator by the number of entries already handed out. The
  hash-table service itself is outside the source files at hand.
\<close>

record TupleHashEntryData =
  firstTuple :: HeapTuple
  additional :: "AggStatePerGroupData list"

record AggStatePerHashData =
  hashtable :: "TupleHashEntryData list"
  hashiter :: nat

datatype ExprContextRef = HashContext | AggContext nat

text \<open>
  \<open>AggState\<close>: the fields the modelled functions read or write. \<open>phase\<close> points into
  \<open>phases\<close> and is modelled by the index it points at. \<open>peraggs\<close> and
  \<open>pertransstates\<close> are the arrays \<open>aggstate->peragg\<close> and \<open>aggstate->pertrans\<close>. \<open>transfn_calls\<close> and
  \<open>finalfn_calls\<close> are ghost fields, not in the C struct: they record the argument array
  of every \<open>FunctionCallInvoke\<close> of a transition function and of a final function, in
  order, so that invocations can be counted.
\<close>

record AggState =
  aggstrategy :: AggStrategy
  numphases :: nat
  phases :: "AggStatePerPhaseData list"
  current_phase :: nat
  phase :: nat
  sort_in :: "HeapTuple Tuplesortstate option"
  sort_out :: "HeapTuple Tuplesortstate option"
  input_done :: bool
  agg_done :: bool
  table_filled :: bool
  projected_set :: int
  current_set :: nat
  curaggcontext :: ExprContextRef
  num_hashes :: nat
  perhash :: "AggStatePerHashData list"
  ps_ExprContext :: ExprContext
  peraggs :: "AggStatePerAggData list"
  pertransstates :: "AggStatePerTransData list"
  curpertrans :: "AggStatePerTransData option"
  curperagg :: "AggStatePerAggData option"
  transfn_calls :: "NullableDatum list list"
  finalfn_calls :: "NullableDatum list list"

datatype exec_error = NullPointerDereference | ArrayIndexOutOfRange

section \<open>Transition-state manager\<close>

text \<open>
  \<open>initialize_aggregate\<close> (nodeAgg.c, lines 765-838). An unfinished sort of the current
  grouping set is ended and a fresh, empty one begun for a DISTINCT/ORDER BY aggregate
  (the ordering of the new sort comes from the sort operators, here \<open>ord\<close>); then the
  transition value is reset to the initial value.
\<close>

definition initialize_aggregate ::
  "(SortTuple list \<Rightarrow> SortTuple list) \<Rightarrow> AggState \<Rightarrow> AggStatePerTransData \<Rightarrow>
   AggStatePerGroupData \<Rightarrow> AggStatePerTransData \<times> AggStatePerGroupData" where
  "initialize_aggregate ord aggstate pertrans pergroupstate =
     (let pertrans' =
            (if numSortCols pertrans > 0
             then pertrans\<lparr>sortstates := (sortstates pertrans)
                    [current_set aggstate := Some \<lparr>sort_order = ord, memtuples = []\<rparr>]\<rparr>
             else pertrans);
          tv = (if initValueIsNull pertrans then initValue pertrans
                else datumCopy (initValue pertrans))
      in (pertrans',
          pergroupstate\<lparr>transValue := tv,
                         transValueIsNull := initValueIsNull pertrans,
                         noTransValue := initValueIsNull pertrans\<rparr>))"

text \<open>
  \<open>ExecAggTransReparent\<close> is defined outside the source files at hand. Modelled from the
  comment at lines 983-987 of nodeAgg.c: it copies the new value into the aggregate
  context and takes care to set the value to 0 when it is NULL.
\<close>

definition ExecAggTransReparent :: "Datum \<Rightarrow> bool \<Rightarrow> Datum" where
  "ExecAggTransReparent newValue newValueIsNull =
     (if newValueIsNull then 0 else datumCopy newValue)"

text \<open>
  The loop of lines 921-925: is any of the argument positions \<open>1 .. numTransInputs\<close>
  null?
\<close>

definition any_null_input :: "NullableDatum list \<Rightarrow> nat \<Rightarrow> bool" where
  "any_null_input as n = list_ex (\<lambda>i. isnull (as ! i)) [1..<Suc n]"

text \<open>
  \<open>advance_transition_function\<close> (nodeAgg.c, lines 903-1003). The new input values are
  already loaded in argument positions 1 and up of \<open>transfn_fcinfo\<close>. The three pointers
  of the C function become three values passed in and returned. A datum stands for the
  value it denotes, so the comparison of pointers at line 993 is a comparison of values
  here: for a by-reference accumulator, a result that is a fresh object equal to the old
  accumulator counts as the old one. This differs from the code only when such a result is
  NULL, where the code stores 0.
\<close>

definition advance_transition_function ::
  "AggState \<Rightarrow> AggStatePerTransData \<Rightarrow> AggStatePerGroupData \<Rightarrow>
   AggState \<times> AggStatePerTransData \<times> AggStatePerGroupData" where
  "advance_transition_function aggstate pertrans pergroupstate =
     (let fcinfo = transfn_fcinfo pertrans;
          strict = fn_strict (transfn pertrans)
      in if strict \<and> any_null_input (args fcinfo) (numTransInputs pertrans)
         then (aggstate, pertrans, pergroupstate)
         else if strict \<and> noTransValue pergroupstate
         then (aggstate, pertrans,
               pergroupstate\<lparr>transValue := datumCopy (dvalue (args fcinfo ! 1)),
                              transValueIsNull := False,
                              noTransValue := False\<rparr>)
         else if strict \<and> transValueIsNull pergroupstate
         then (aggstate, pertrans, pergroupstate)
         else
           (let call_args = (args fcinfo)
                  [0 := \<lparr>dvalue = transValue pergroupstate,
                         isnull = transValueIsNull pergroupstate\<rparr>];
                res = fn_addr (transfn pertrans) call_args;
                fcinfo' = fcinfo\<lparr>args := call_args, fcinfo_isnull := isnull res\<rparr>;
                newVal = (if \<not> transtypeByVal pertrans \<and>
                             dvalue res \<noteq> transValue pergroupstate
                          then ExecAggTransReparent (dvalue res) (isnull res)
                          else dvalue res)
            in (aggstate\<lparr>curpertrans := None,
                         transfn_calls := transfn_calls aggstate @ [call_args]\<rparr>,
                pertrans\<lparr>transfn_fcinfo := fcinfo'\<rparr>,
                pergroupstate\<lparr>transValue := newVal,
                               transValueIsNull := isnull res\<rparr>)))"

section \<open>Concrete aggregates used to run the model\<close>

text \<open>
  Three transition functions in the shape of PostgreSQL's own: \<open>int4larger\<close> (strict, the
  transition function of \<open>max\<close>, declared without an initial value), \<open>int8inc_any\<close>
  (strict, the transition function of \<open>count\<close>, initial value 0), and a strict function
  that returns NULL whatever it is given.
\<close>

definition int4larger :: "NullableDatum list \<Rightarrow> NullableDatum" where
  "int4larger as = \<lparr>dvalue = max (dvalue (as ! 0)) (dvalue (as ! 1)), isnull = False\<rparr>"

definition int8inc_any :: "NullableDatum list \<Rightarrow> NullableDatum" where
  "int8inc_any as = \<lparr>dvalue = dvalue (as ! 0) + 1, isnull = False\<rparr>"

definition returns_null :: "NullableDatum list \<Rightarrow> NullableDatum" where
  "returns_null as = \<lparr>dvalue = 0, isnull = True\<rparr>"

definition null_datum :: NullableDatum where
  "null_datum = \<lparr>dvalue = 0, isnull = True\<rparr>"

definition datum :: "Datum \<Rightarrow> NullableDatum" where
  "datum d = \<lparr>dvalue = d, isnull = False\<rparr>"

text \<open>A one-input aggregate over the given transition function, with no initial value.\<close>

definition example_pertrans :: "bool \<Rightarrow> (NullableDatum list \<Rightarrow> NullableDatum) \<Rightarrow> AggStatePerTransData" where
  "example_pertrans strict f =
     \<lparr>aggshared = False, transfn_oid = 768, serialfn_oid = InvalidOid,
      deserialfn_oid = InvalidOid, pertrans_aggtranstype = 23,
      numInputs = 1, numTransInputs = 1,
      transfn = \<lparr>fn_strict = strict, fn_addr = f\<rparr>,
      numSortCols = 0, numDistinctCols = 0,
      equalfnOne = (=),
      initValue = 0, initValueIsNull = True,
      inputtypeByVal = True, transtypeByVal = True,
      sortstates = [None],
      transfn_fcinfo = \<lparr>args = [null_datum, null_datum], fcinfo_isnull = False\<rparr>\<rparr>"

definition example_pergroup :: AggStatePerGroupData where
  "example_pergroup = \<lparr>transValue = 7, transValueIsNull = False, noTransValue = False\<rparr>"

definition example_aggstate :: AggState where
  "example_aggstate =
     \<lparr>aggstrategy = AGG_PLAIN, numphases = 2,
      phases = [\<lparr>phase_aggstrategy = AGG_PLAIN, numsets = 0, gset_lengths = [], sortnode = None\<rparr>,
                \<lparr>phase_aggstrategy = AGG_PLAIN, numsets = 0, gset_lengths = [], sortnode = None\<rparr>],
      current_phase = 1, phase = 1, sort_in = None, sort_out = None,
      input_done = False, agg_done = False, table_filled = False,
      projected_set = -1, current_set = 0, curaggcontext = AggContext 0,
      num_hashes = 0, perhash = [],
      ps_ExprContext = \<lparr>ecxt_outertuple = []\<rparr>,
      peraggs = [], pertransstates = [],
      curpertrans = None, curperagg = None,
      transfn_calls = [], finalfn_calls = []\<rparr>"

text \<open>
  The caller's side of \<open>advance_transition_function\<close>: the expression evaluator loads the
  values of an input row into argument positions 1 and up and then calls it, once per row.
  \<open>start_group\<close> begins a group with \<open>initialize_aggregate\<close>.
\<close>

definition load_inputs :: "NullableDatum list \<Rightarrow> AggStatePerTransData \<Rightarrow> AggStatePerTransData" where
  "load_inputs row pertrans =
     pertrans\<lparr>transfn_fcinfo := (transfn_fcinfo pertrans)
        \<lparr>args := hd (args (transfn_fcinfo pertrans)) # row\<rparr>\<rparr>"

fun advance_rows ::
  "NullableDatum list list \<Rightarrow> AggState \<times> AggStatePerTransData \<times> AggStatePerGroupData \<Rightarrow>
   AggState \<times> AggStatePerTransData \<times> AggStatePerGroupData" where
  "advance_rows [] s = s"
| "advance_rows (row # rows) (aggstate, pertrans, pergroupstate) =
     advance_rows rows
       (advance_transition_function aggstate (load_inputs row pertrans) pergroupstate)"

definition start_group :: "AggStatePerTransData \<Rightarrow> AggState \<times> AggStatePerTransData \<times> AggStatePerGroupData" where
  "start_group pertrans =
     (case initialize_aggregate id example_aggstate pertrans example_pergroup of
        (pertrans', pergroupstate) \<Rightarrow> (example_aggstate, pertrans', pergroupstate))"


section \<open>Sort-based DISTINCT processing of a single-input aggregate\<close>

text \<open>
  The loop of \<open>process_ordered_aggregate_single\<close> (nodeAgg.c, lines 1267-1307).
  \<open>tuplesort_getdatum\<close> writes the next sorted value and its null flag straight into
  argument position 1 of \<open>transfn_fcinfo\<close> and hands out the abbreviated key. The value is
  skipped when DISTINCT is asked for, an old value is on hand, and either both are null or
  both are non-null with equal abbreviated keys and the equality operator holds; otherwise
  the transition state is advanced and the value becomes the old value. The \<open>pfree\<close>
  calls and the memory-context switches are not modelled.
\<close>

lemma tuplesort_getdatum_shorter:
  "tuplesort_getdatum ts = (Some t, ts') \<Longrightarrow> length (memtuples ts') < length (memtuples ts)"
  by (auto simp: tuplesort_getdatum_def split: list.splits)

function process_ordered_single_loop ::
  "SortTuple Tuplesortstate \<Rightarrow> Datum \<Rightarrow> bool \<Rightarrow> bool \<Rightarrow> Datum \<Rightarrow>
   AggState \<Rightarrow> AggStatePerTransData \<Rightarrow> AggStatePerGroupData \<Rightarrow>
   AggState \<times> AggStatePerTransData \<times> AggStatePerGroupData" where
  "process_ordered_single_loop ts oldVal oldIsNull haveOldVal oldAbbrevVal
       aggstate pertrans pergroupstate =
     (case tuplesort_getdatum ts of
        (None, ts') \<Rightarrow> (aggstate, pertrans, pergroupstate)
      | (Some t, ts') \<Rightarrow>
          (let fcinfo = transfn_fcinfo pertrans;
               pertrans1 = pertrans\<lparr>transfn_fcinfo := fcinfo
                  \<lparr>args := (args fcinfo)[1 := \<lparr>dvalue = datum1 t, isnull = isnull1 t\<rparr>]\<rparr>\<rparr>;
               newVal = dvalue (args (transfn_fcinfo pertrans1) ! 1);
               isNull = isnull (args (transfn_fcinfo pertrans1) ! 1);
               newAbbrevVal = abbrev1 t
           in if numDistinctCols pertrans > 0 \<and> haveOldVal \<and>
                 ((oldIsNull \<and> isNull) \<or>
                  (\<not> oldIsNull \<and> \<not> isNull \<and> oldAbbrevVal = newAbbrevVal \<and>
                   equalfnOne pertrans oldVal newVal))
              then process_ordered_single_loop ts' oldVal oldIsNull haveOldVal oldAbbrevVal
                     aggstate pertrans1 pergroupstate
              else (case advance_transition_function aggstate pertrans1 pergroupstate of
                      (aggstate', pertrans', pergroupstate') \<Rightarrow>
                        process_ordered_single_loop ts'
                          (dvalue (args (transfn_fcinfo pertrans') ! 1))
                          (isnull (args (transfn_fcinfo pertrans') ! 1))
                          True newAbbrevVal aggstate' pertrans' pergroupstate')))"
  by pat_completeness auto
termination
  by (relation "measure (\<lambda>(ts, _). length (memtuples ts))")
     (auto dest: tuplesort_getdatum_shorter [OF sym])

text \<open>
  \<open>process_ordered_aggregate_single\<close> (nodeAgg.c, lines 1236-1314): sort, run the loop
  from \<open>oldVal = 0\<close>, \<open>oldIsNull = true\<close>, \<open>haveOldVal = false\<close>,
  \<open>oldAbbrevVal = 0\<close>, then end the sort and set its slot to NULL. A NULL sort state is
  dereferenced by \<open>tuplesort_performsort\<close>.
\<close>

definition process_ordered_aggregate_single ::
  "AggState \<Rightarrow> AggStatePerTransData \<Rightarrow> AggStatePerGroupData \<Rightarrow>
   exec_error + AggState \<times> AggStatePerTransData \<times> AggStatePerGroupData" where
  "process_ordered_aggregate_single aggstate pertrans pergroupstate =
     (if length (sortstates pertrans) \<le> current_set aggstate then Inl ArrayIndexOutOfRange
      else case sortstates pertrans ! current_set aggstate of
        None \<Rightarrow> Inl NullPointerDereference
      | Some ts \<Rightarrow>
          (case process_ordered_single_loop (tuplesort_performsort ts) 0 True False 0
                  aggstate pertrans pergroupstate of
             (aggstate', pertrans', pergroupstate') \<Rightarrow>
               Inr (aggstate',
                    pertrans'\<lparr>sortstates := (sortstates pertrans')[current_set aggstate := None]\<rparr>,
                    pergroupstate')))"

text \<open>
  The property in the words of the specification: consecutive values that are equal (both
  null, or both non-null with the same abbreviated key and equal under the equality
  operator) are collapsed to the first of them.
\<close>

definition same_value :: "(Datum \<Rightarrow> Datum \<Rightarrow> bool) \<Rightarrow> SortTuple \<Rightarrow> SortTuple \<Rightarrow> bool" where
  "same_value eq a b =
     ((isnull1 a \<and> isnull1 b) \<or>
      (\<not> isnull1 a \<and> \<not> isnull1 b \<and> abbrev1 a = abbrev1 b \<and> eq (datum1 a) (datum1 b)))"

fun collapse_equal_runs :: "('a \<Rightarrow> 'a \<Rightarrow> bool) \<Rightarrow> 'a list \<Rightarrow> 'a list" where
  "collapse_equal_runs same [] = []"
| "collapse_equal_runs same [x] = [x]"
| "collapse_equal_runs same (x # y # xs) =
     (if same x y then collapse_equal_runs same (x # xs)
      else x # collapse_equal_runs same (y # xs))"

definition row_of :: "SortTuple \<Rightarrow> NullableDatum list" where
  "row_of t = [\<lparr>dvalue = datum1 t, isnull = isnull1 t\<rparr>]"

definition acc_of ::
  "AggState \<times> AggStatePerTransData \<times> AggStatePerGroupData \<Rightarrow> AggState \<times> AggStatePerGroupData" where
  "acc_of s = (fst s, snd (snd s))"

text \<open>Projections of a result, for stating what a run did.\<close>

definition invocations ::
  "exec_error + AggState \<times> AggStatePerTransData \<times> AggStatePerGroupData \<Rightarrow> NullableDatum list list" where
  "invocations r = (case r of Inl e \<Rightarrow> [] | Inr (a, p, g) \<Rightarrow> transfn_calls a)"

definition sortstates_after ::
  "exec_error + AggState \<times> AggStatePerTransData \<times> AggStatePerGroupData \<Rightarrow>
   SortTuple Tuplesortstate option list" where
  "sortstates_after r = (case r of Inl e \<Rightarrow> [] | Inr (a, p, g) \<Rightarrow> sortstates p)"


text \<open>
  A one-input DISTINCT aggregate whose sort holds the given values, none of them null, no
  abbreviated keys in use; and the group state of \<open>count\<close> after
  \<open>initialize_aggregate\<close>.
\<close>

definition distinct_pertrans :: "bool \<Rightarrow> bool \<Rightarrow> (NullableDatum list \<Rightarrow> NullableDatum) \<Rightarrow> Datum list \<Rightarrow> AggStatePerTransData" where
  "distinct_pertrans strict initnull f xs =
     (example_pertrans strict f)
       \<lparr>numSortCols := 1, numDistinctCols := 1, initValueIsNull := initnull,
        sortstates := [Some \<lparr>sort_order = id,
                             memtuples = map (\<lambda>x. \<lparr>datum1 = x, isnull1 = False, abbrev1 = 0\<rparr>) xs\<rparr>]\<rparr>"

definition count_pergroup :: AggStatePerGroupData where
  "count_pergroup = \<lparr>transValue = 0, transValueIsNull = False, noTransValue = False\<rparr>"


section \<open>Finalization\<close>

text \<open>
  \<open>MakeExpandedObjectReadOnly\<close> hands out a read-only pointer to the same object: the
  identity on values.
\<close>

definition MakeExpandedObjectReadOnly :: "Datum \<Rightarrow> bool \<Rightarrow> Datum" where
  "MakeExpandedObjectReadOnly d isnull' = d"

text \<open>
  The argument array of the final function (nodeAgg.c, lines 1443-1484): the transition
  value in position 0, the evaluated direct arguments from position 1, nulls in the
  remaining declared positions; and whether any of them is null. The function is called
  with \<open>numFinalArgs\<close> arguments.
\<close>

definition finalfn_arguments ::
  "HeapTuple \<Rightarrow> AggStatePerAggData \<Rightarrow> AggStatePerGroupData \<Rightarrow> NullableDatum list \<times> bool" where
  "finalfn_arguments outertuple peragg pergroupstate =
     (let direct = map (\<lambda>expr. expr outertuple) (aggdirectargs peragg);
          i = 1 + length direct;
          arg0 = \<lparr>dvalue = MakeExpandedObjectReadOnly (transValue pergroupstate)
                             (transValueIsNull pergroupstate),
                  isnull = transValueIsNull pergroupstate\<rparr>;
          fill = replicate (numFinalArgs peragg - i) \<lparr>dvalue = 0, isnull = True\<rparr>;
          anynull = (list_ex isnull direct \<or> transValueIsNull pergroupstate \<or>
                     i < numFinalArgs peragg)
      in (take (numFinalArgs peragg) (arg0 # direct @ fill), anynull))"

text \<open>
  Lines 1506-1514: a pass-by-reference result that is not in the output context is copied
  there. \<open>MemoryContextContains\<close> is a service of the memory manager, a parameter here.
\<close>

definition result_in_context ::
  "(Datum \<Rightarrow> bool) \<Rightarrow> AggStatePerAggData \<Rightarrow> NullableDatum \<Rightarrow> NullableDatum" where
  "result_in_context MemoryContextContains peragg result =
     (if \<not> resulttypeByVal peragg \<and> \<not> isnull result \<and>
         \<not> MemoryContextContains (dvalue result)
      then result\<lparr>dvalue := datumCopy (dvalue result)\<rparr>
      else result)"

text \<open>
  \<open>finalize_aggregate\<close> (nodeAgg.c, lines 1422-1517). The C function receives pointers
  to the \<open>AggState\<close> and to the per-group state; the model returns both together with
  the result, so that what the function leaves in them can be stated. The final function
  is a function of its argument array.
\<close>

definition finalize_aggregate ::
  "(Datum \<Rightarrow> bool) \<Rightarrow> AggState \<Rightarrow> AggStatePerAggData \<Rightarrow> AggStatePerGroupData \<Rightarrow>
   AggState \<times> AggStatePerGroupData \<times> NullableDatum" where
  "finalize_aggregate MemoryContextContains aggstate peragg pergroupstate =
     (if OidIsValid (finalfn_oid peragg)
      then
        (case finalfn_arguments (ecxt_outertuple (ps_ExprContext aggstate)) peragg
                pergroupstate of
           (fargs, anynull) \<Rightarrow>
             if fn_strict (finalfn peragg) \<and> anynull
             then (aggstate\<lparr>curperagg := None\<rparr>, pergroupstate,
                   result_in_context MemoryContextContains peragg
                     \<lparr>dvalue = 0, isnull = True\<rparr>)
             else (aggstate\<lparr>curperagg := None,
                            finalfn_calls := finalfn_calls aggstate @ [fargs]\<rparr>,
                   pergroupstate,
                   result_in_context MemoryContextContains peragg
                     (fn_addr (finalfn peragg) fargs)))
      else (aggstate, pergroupstate,
            result_in_context MemoryContextContains peragg
              \<lparr>dvalue = transValue pergroupstate,
               isnull = transValueIsNull pergroupstate\<rparr>))"

text \<open>
  A final function of two arguments (the transition value and one direct argument), and an
  aggregate that uses it.
\<close>

definition example_finalfn :: "NullableDatum list \<Rightarrow> NullableDatum" where
  "example_finalfn as = \<lparr>dvalue = 2 * dvalue (as ! 0) + dvalue (as ! 1), isnull = False\<rparr>"

definition example_aggref :: Aggref where
  "example_aggref =
     \<lparr>aggfnoid = 2116, aggtype = 23, aggcollid = 0, inputcollid = 0, aggtranstype = 23,
      aggref_directargs = [], aggref_args = [Var 1], aggorder = [], aggdistinct = [],
      aggfilter = None, aggstar = False, aggvariadic = False, aggkind = CHR ''n''\<rparr>"

definition example_peragg :: AggStatePerAggData where
  "example_peragg =
     \<lparr>aggref = example_aggref, transno = 0, finalfn_oid = 1964,
      finalfn = \<lparr>fn_strict = True, fn_addr = example_finalfn\<rparr>,
      numFinalArgs = 2,
      aggdirectargs = [\<lambda>row. \<lparr>dvalue = 1, isnull = False\<rparr>],
      resulttypeByVal = True, shareable = True\<rparr>"

section \<open>Sharing of per-agg and per-trans state at initialization\<close>

text \<open>
  The loop of \<open>find_compatible_peragg\<close> (nodeAgg.c, lines 3869-3910) over the per-agg
  structs \<open>0 .. lastaggno\<close>: an entry with different inputs is passed over, an identical
  aggregate call is an exact match (and the list collected so far is dropped), and an
  entry with the same inputs whose final function permits sharing adds its \<open>transno\<close> to
  the list.
\<close>

fun find_compatible_peragg_loop ::
  "Aggref \<Rightarrow> AggStatePerAggData list \<Rightarrow> nat list \<Rightarrow> nat list \<Rightarrow> int \<times> nat list" where
  "find_compatible_peragg_loop newagg peragg_array [] same_input_transnos =
     (- 1, same_input_transnos)"
| "find_compatible_peragg_loop newagg peragg_array (aggno # rest) same_input_transnos =
     (let peragg = peragg_array ! aggno;
          existingRef = aggref peragg
      in if inputcollid newagg \<noteq> inputcollid existingRef \<or>
            aggtranstype newagg \<noteq> aggtranstype existingRef \<or>
            aggstar newagg \<noteq> aggstar existingRef \<or>
            aggvariadic newagg \<noteq> aggvariadic existingRef \<or>
            aggkind newagg \<noteq> aggkind existingRef \<or>
            aggref_args newagg \<noteq> aggref_args existingRef \<or>
            aggorder newagg \<noteq> aggorder existingRef \<or>
            aggdistinct newagg \<noteq> aggdistinct existingRef \<or>
            aggfilter newagg \<noteq> aggfilter existingRef
         then find_compatible_peragg_loop newagg peragg_array rest same_input_transnos
         else if aggfnoid newagg = aggfnoid existingRef \<and>
                 aggtype newagg = aggtype existingRef \<and>
                 aggcollid newagg = aggcollid existingRef \<and>
                 aggref_directargs newagg = aggref_directargs existingRef
         then (int aggno, [])
         else if shareable peragg
         then find_compatible_peragg_loop newagg peragg_array rest
                (same_input_transnos @ [transno peragg])
         else find_compatible_peragg_loop newagg peragg_array rest same_input_transnos)"

text \<open>
  \<open>find_compatible_peragg\<close> (nodeAgg.c, lines 3845-3913). It returns the matching
  \<open>aggno\<close> or -1, and the list \<open>*same_input_transnos\<close>. \<open>contain_volatile_functions\<close>
  is the planner's walker, outside the source files at hand: a parameter.
\<close>

definition find_compatible_peragg ::
  "(Aggref \<Rightarrow> bool) \<Rightarrow> Aggref \<Rightarrow> AggState \<Rightarrow> int \<Rightarrow> int \<times> nat list" where
  "find_compatible_peragg contain_volatile_functions newagg aggstate lastaggno =
     (if contain_volatile_functions newagg then (- 1, [])
      else find_compatible_peragg_loop newagg (peraggs aggstate)
             [0..<nat (lastaggno + 1)] [])"

text \<open>
  \<open>find_compatible_pertrans\<close> (nodeAgg.c, lines 3923-3972). \<open>datumIsEqual\<close> compares two
  datums by their contents.
\<close>

definition datumIsEqual :: "Datum \<Rightarrow> Datum \<Rightarrow> bool" where
  "datumIsEqual a b = (a = b)"

fun find_compatible_pertrans_loop ::
  "AggStatePerTransData list \<Rightarrow> Oid \<Rightarrow> Oid \<Rightarrow> Oid \<Rightarrow> Oid \<Rightarrow> Datum \<Rightarrow> bool \<Rightarrow> nat list \<Rightarrow> int" where
  "find_compatible_pertrans_loop pertrans_array aggtransfn trtype aggserialfn aggdeserialfn
       initVal initIsNull [] = - 1"
| "find_compatible_pertrans_loop pertrans_array aggtransfn trtype aggserialfn aggdeserialfn
       initVal initIsNull (tno # rest) =
     (let pertrans = pertrans_array ! tno
      in if aggtransfn \<noteq> transfn_oid pertrans \<or> trtype \<noteq> pertrans_aggtranstype pertrans
         then find_compatible_pertrans_loop pertrans_array aggtransfn trtype aggserialfn
                aggdeserialfn initVal initIsNull rest
         else if aggserialfn \<noteq> serialfn_oid pertrans \<or>
                 aggdeserialfn \<noteq> deserialfn_oid pertrans
         then find_compatible_pertrans_loop pertrans_array aggtransfn trtype aggserialfn
                aggdeserialfn initVal initIsNull rest
         else if initIsNull \<and> initValueIsNull pertrans
         then int tno
         else if \<not> initIsNull \<and> \<not> initValueIsNull pertrans \<and>
                 datumIsEqual initVal (initValue pertrans)
         then int tno
         else find_compatible_pertrans_loop pertrans_array aggtransfn trtype aggserialfn
                aggdeserialfn initVal initIsNull rest)"

definition find_compatible_pertrans ::
  "AggState \<Rightarrow> Aggref \<Rightarrow> bool \<Rightarrow> Oid \<Rightarrow> Oid \<Rightarrow> Oid \<Rightarrow> Oid \<Rightarrow> Datum \<Rightarrow> bool \<Rightarrow> nat list \<Rightarrow> int" where
  "find_compatible_pertrans aggstate newagg shareable' aggtransfn trtype aggserialfn
       aggdeserialfn initVal initIsNull transnos =
     (if \<not> shareable' then - 1
      else find_compatible_pertrans_loop (pertransstates aggstate) aggtransfn trtype
             aggserialfn aggdeserialfn initVal initIsNull transnos)"

text \<open>
  What \<open>VExecInitAgg\<close> does with the two answers (lines 3181-3196 and 3400-3419): an
  existing index is reused and the counter stays; otherwise the counter is incremented and
  the new slot is the one it then names. The pair is the index given to the aggregate and
  the new value of the counter.
\<close>

definition assign_aggno :: "int \<Rightarrow> int \<Rightarrow> int \<times> int" where
  "assign_aggno existing_aggno aggno =
     (if existing_aggno \<noteq> - 1 then (existing_aggno, aggno) else (aggno + 1, aggno + 1))"

definition assign_transno :: "int \<Rightarrow> int \<Rightarrow> int \<times> int" where
  "assign_transno existing_transno tno =
     (if existing_transno \<noteq> - 1 then (existing_transno, tno) else (tno + 1, tno + 1))"

text \<open>
  \<open>sum(random())\<close>: an aggregate call over a volatile function (function 1598), and an
  \<open>AggState\<close> that already holds an identical call and another aggregate.
\<close>

definition volatile_example :: "Aggref \<Rightarrow> bool" where
  "volatile_example a = (FuncExpr 1598 [] \<in> set (aggref_args a))"

definition sum_random :: Aggref where
  "sum_random = example_aggref\<lparr>aggref_args := [FuncExpr 1598 []]\<rparr>"

definition sharing_aggstate :: AggState where
  "sharing_aggstate =
     example_aggstate\<lparr>peraggs := [example_peragg\<lparr>aggref := sum_random\<rparr>, example_peragg],
                       pertransstates := [example_pertrans True int4larger]\<rparr>"

section \<open>Batches: the vector tuple slot (execTuples.c, vectorTupleSlot.c)\<close>

text \<open>
  A column of a batch (\<open>vtype\<close>) and the \<open>VectorTupleSlot\<close>: the flag
  \<open>TTS_FLAG_EMPTY\<close>, the flag \<open>TTS_FLAG_SHOULDFREE\<close>, the columns that
  \<open>tts_values\<close> points to, the number of rows \<open>dim\<close>, the pinned buffers and the
  per-row skip mask. The capacity \<open>BATCHSIZE\<close> is a compile-time constant of a header
  outside the source files at hand: a parameter of every function that uses it.
\<close>

record vtype =
  col_dim :: nat
  col_values :: "Datum list"
  col_isnull :: "bool list"

type_synonym Buffer = nat

definition InvalidBuffer :: Buffer where
  "InvalidBuffer = 0"

record VectorTupleSlot =
  tts_empty :: bool
  tts_shouldfree :: bool
  tts_nvalid :: nat
  tts_values :: "vtype list"
  dim :: nat
  bufnum :: nat
  tts_buffers :: "Buffer list"
  skip :: "bool list"

text \<open>
  Modelled from the spec: \<open>buildvtype\<close> is declared in \<open>executor/vtype.h\<close>, outside the
  source files at hand. A batch column holds a dense value array of length N and a
  per-row null-flag array of length N.
\<close>

definition buildvtype :: "nat \<Rightarrow> vtype" where
  "buildvtype BATCHSIZE =
     \<lparr>col_dim = 0, col_values = replicate BATCHSIZE 0, col_isnull = replicate BATCHSIZE False\<rparr>"

text \<open>
  \<open>InitializeVectorSlotColumn\<close> (vectorTupleSlot.c) and \<open>tts_vector_init\<close>
  (execTuples.c): a new slot is empty, holds no rows and no buffers, and skips every row.
\<close>

definition InitializeVectorSlotColumn :: "nat \<Rightarrow> nat \<Rightarrow> VectorTupleSlot \<Rightarrow> VectorTupleSlot" where
  "InitializeVectorSlotColumn BATCHSIZE natts vslot =
     vslot\<lparr>tts_values := map (\<lambda>i. (buildvtype BATCHSIZE)\<lparr>col_dim := 0\<rparr>) [0..<natts]\<rparr>"

definition tts_vector_init :: "nat \<Rightarrow> nat \<Rightarrow> VectorTupleSlot" where
  "tts_vector_init BATCHSIZE natts =
     InitializeVectorSlotColumn BATCHSIZE natts
       \<lparr>tts_empty = True, tts_shouldfree = False, tts_nvalid = 0, tts_values = [],
        dim = 0, bufnum = 0, tts_buffers = replicate BATCHSIZE InvalidBuffer,
        skip = replicate BATCHSIZE True\<rparr>"

text \<open>
  \<open>tts_vector_clear\<close> (execTuples.c) and \<open>VExecClearTuple\<close>, which calls it through the
  slot's \<open>clear\<close> method. An empty slot is left as it is.
\<close>

definition tts_vector_clear :: "nat \<Rightarrow> VectorTupleSlot \<Rightarrow> VectorTupleSlot" where
  "tts_vector_clear BATCHSIZE slot =
     (if tts_empty slot then slot
      else slot\<lparr>tts_shouldfree := False,
                tts_empty := True,
                tts_nvalid := 0,
                tts_buffers := map (\<lambda>i. if i < bufnum slot then InvalidBuffer
                                         else tts_buffers slot ! i)
                                  [0..<length (tts_buffers slot)],
                dim := 0,
                bufnum := 0,
                tts_values := map (\<lambda>column. column\<lparr>col_dim := 0\<rparr>) (tts_values slot),
                skip := replicate BATCHSIZE True\<rparr>)"

definition VExecClearTuple :: "nat \<Rightarrow> VectorTupleSlot \<Rightarrow> VectorTupleSlot" where
  "VExecClearTuple BATCHSIZE slot = tts_vector_clear BATCHSIZE slot"

text \<open>\<open>InitAggResultSlot\<close> (nodeAgg.c, lines 608-634): the result batch of the Agg node.\<close>

definition InitAggResultSlot :: "nat \<Rightarrow> nat \<Rightarrow> VectorTupleSlot" where
  "InitAggResultSlot BATCHSIZE natts =
     (tts_vector_init BATCHSIZE natts)
       \<lparr>tts_values := map (\<lambda>i. buildvtype BATCHSIZE) [0..<natts]\<rparr>"

text \<open>
  The loop that copies a projected row into the result batch (nodeAgg.c, lines 2462-2466
  and 2643-2647): \<open>column->values[row] = result->tts_values[i]\<close> for each of the
  \<open>natts\<close> columns. \<open>result\<close> is what \<open>project_aggregates\<close> returned, NULL when the
  HAVING clause rejects the group; the loop dereferences it.
\<close>

definition store_result_row ::
  "nat \<Rightarrow> nat \<Rightarrow> HeapTuple option \<Rightarrow> vtype list \<Rightarrow> exec_error + vtype list" where
  "store_result_row natts row result columns =
     (if natts = 0 then Inr columns
      else case result of
        None \<Rightarrow> Inl NullPointerDereference
      | Some tup \<Rightarrow>
          Inr (fold (\<lambda>i cs. cs[i := (cs ! i)
                        \<lparr>col_values := (col_values (cs ! i))[row := dvalue (tup ! i)]\<rparr>])
                    [0..<natts] columns))"

text \<open>
  The end of \<open>agg_retrieve_direct\<close> (nodeAgg.c, lines 2456-2470), the only place where
  that function returns a slot: the result batch is cleared, the projected row is stored
  at row 0, \<open>skip[0]\<close> is set to false and the empty flag is taken away.
\<close>

definition agg_retrieve_direct_postprocess ::
  "nat \<Rightarrow> nat \<Rightarrow> HeapTuple option \<Rightarrow> VectorTupleSlot \<Rightarrow> exec_error + VectorTupleSlot" where
  "agg_retrieve_direct_postprocess BATCHSIZE natts result resultSlot' =
     (let vslot = VExecClearTuple BATCHSIZE resultSlot'
      in case store_result_row natts 0 result (tts_values vslot) of
           Inl e \<Rightarrow> Inl e
         | Inr columns \<Rightarrow>
             Inr (vslot\<lparr>tts_values := columns,
                        skip := (skip vslot)[0 := False],
                        tts_empty := False\<rparr>))"


text \<open>
  The result batches that the PLAIN and SORTED strategies can hold: the one
  \<open>InitAggResultSlot\<close> makes, and whatever the end of \<open>agg_retrieve_direct\<close> makes of
  such a batch.
\<close>

inductive plain_result_slot :: "nat \<Rightarrow> nat \<Rightarrow> VectorTupleSlot \<Rightarrow> bool"
  for BATCHSIZE :: nat and natts :: nat where
  initial: "plain_result_slot BATCHSIZE natts (InitAggResultSlot BATCHSIZE natts)"
| returned: "plain_result_slot BATCHSIZE natts s \<Longrightarrow>
             agg_retrieve_direct_postprocess BATCHSIZE natts result s = Inr s' \<Longrightarrow>
             plain_result_slot BATCHSIZE natts s'"


section \<open>Hash retrieval and the driver\<close>

text \<open>\<open>VectorAggState\<close>: the Agg node's state and its result batch.\<close>

record VectorAggState =
  vas_aggstate :: AggState
  resultSlot :: VectorTupleSlot

text \<open>\<open>select_current_set\<close> (nodeAgg.c, lines 840-850).\<close>

definition select_current_set :: "AggState \<Rightarrow> nat \<Rightarrow> bool \<Rightarrow> AggState" where
  "select_current_set aggstate setno is_hash =
     aggstate\<lparr>curaggcontext := (if is_hash then HashContext else AggContext setno),
               current_set := setno\<rparr>"

text \<open>
  The iterator of the hash-table service, outside the source files at hand:
  \<open>ScanTupleHashTable\<close> hands out the next entry or NULL, \<open>ResetTupleHashIterator\<close>
  starts over.
\<close>

definition ScanTupleHashTable ::
  "AggStatePerHashData \<Rightarrow> TupleHashEntryData option \<times> AggStatePerHashData" where
  "ScanTupleHashTable ph =
     (if hashiter ph < length (hashtable ph)
      then (Some (hashtable ph ! hashiter ph), ph\<lparr>hashiter := hashiter ph + 1\<rparr>)
      else (None, ph))"

definition ResetTupleHashIterator :: "AggStatePerHashData \<Rightarrow> AggStatePerHashData" where
  "ResetTupleHashIterator ph = ph\<lparr>hashiter := 0\<rparr>"

text \<open>
  The loop of \<open>agg_retrieve_hash_table\<close> (nodeAgg.c, lines 2562-2651). \<open>project\<close>
  stands for what the loop body does with an entry before it copies the row
  (\<open>prepare_projection_slot\<close>, \<open>finalize_aggregates\<close>, \<open>project_aggregates\<close>): the
  projected row, or NULL when the HAVING clause rejects the group. The loop ends when the
  aggregation is done, when the last hash table is exhausted (\<open>agg_done\<close> is set), or when
  \<open>row\<close> reaches \<open>BATCHSIZE\<close>.
\<close>

function agg_retrieve_hash_loop ::
  "nat \<Rightarrow> (TupleHashEntryData \<Rightarrow> HeapTuple option) \<Rightarrow> nat \<Rightarrow>
   AggState \<Rightarrow> VectorTupleSlot \<Rightarrow> nat \<Rightarrow> exec_error + AggState \<times> VectorTupleSlot \<times> nat" where
  "agg_retrieve_hash_loop BATCHSIZE project natts aggstate vslot row =
     (if agg_done aggstate then Inr (aggstate, vslot, row)
      else if length (perhash aggstate) \<le> current_set aggstate then Inl ArrayIndexOutOfRange
      else
        (case ScanTupleHashTable (perhash aggstate ! current_set aggstate) of
           (None, ph) \<Rightarrow>
             (let nextset = current_set aggstate + 1
              in if nextset < num_hashes aggstate
                 then if length (perhash aggstate) \<le> nextset then Inl ArrayIndexOutOfRange
                      else agg_retrieve_hash_loop BATCHSIZE project natts
                             ((select_current_set aggstate nextset True)
                                \<lparr>perhash := (perhash aggstate)
                                   [nextset := ResetTupleHashIterator (perhash aggstate ! nextset)]\<rparr>)
                             vslot row
                 else Inr (aggstate\<lparr>agg_done := True\<rparr>, vslot, row))
         | (Some entry, ph) \<Rightarrow>
             (let aggstate1 = aggstate\<lparr>perhash := (perhash aggstate)[current_set aggstate := ph]\<rparr>
              in case store_result_row natts row (project entry) (tts_values vslot) of
                   Inl e \<Rightarrow> Inl e
                 | Inr columns \<Rightarrow>
                     if row + 1 = BATCHSIZE
                     then Inr (aggstate1, vslot\<lparr>tts_values := columns\<rparr>, row + 1)
                     else agg_retrieve_hash_loop BATCHSIZE project natts aggstate1
                            (vslot\<lparr>tts_values := columns\<rparr>) (row + 1))))"
  by pat_completeness auto
termination
  by (relation "measures
        [\<lambda>(B, p, n, aggstate, vslot, row). num_hashes aggstate - current_set aggstate,
         \<lambda>(B, p, n, aggstate, vslot, row).
            length (hashtable (perhash aggstate ! current_set aggstate))
              - hashiter (perhash aggstate ! current_set aggstate)]")
     (auto simp: ScanTupleHashTable_def select_current_set_def split: if_splits)

text \<open>
  \<open>agg_retrieve_hash_table\<close> (nodeAgg.c, lines 2522-2655): clear the result batch, run the
  loop from row 0, and \<open>return NULL\<close>, the only return statement of the function.
\<close>

definition agg_retrieve_hash_table ::
  "nat \<Rightarrow> (TupleHashEntryData \<Rightarrow> HeapTuple option) \<Rightarrow> nat \<Rightarrow> VectorAggState \<Rightarrow>
   exec_error + VectorTupleSlot option \<times> VectorAggState" where
  "agg_retrieve_hash_table BATCHSIZE project natts vas =
     (case agg_retrieve_hash_loop BATCHSIZE project natts (vas_aggstate vas)
             (VExecClearTuple BATCHSIZE (resultSlot vas)) 0 of
        Inl e \<Rightarrow> Inl e
      | Inr (aggstate, vslot, row) \<Rightarrow>
          Inr (None, vas\<lparr>vas_aggstate := aggstate, resultSlot := vslot\<rparr>))"

text \<open>
  \<open>VExecAgg\<close> (nodeAgg.c, lines 2086-2117). \<open>agg_fill_hash_table\<close> and
  \<open>agg_retrieve_direct\<close> are parameters here; \<open>TupIsNull\<close> holds of a NULL pointer and of
  an empty slot.
\<close>

definition TupIsNull :: "VectorTupleSlot option \<Rightarrow> bool" where
  "TupIsNull slot = (case slot of None \<Rightarrow> True | Some s \<Rightarrow> tts_empty s)"

definition VExecAgg ::
  "nat \<Rightarrow> (TupleHashEntryData \<Rightarrow> HeapTuple option) \<Rightarrow> nat \<Rightarrow>
   (AggState \<Rightarrow> AggState) \<Rightarrow>
   (VectorAggState \<Rightarrow> exec_error + VectorTupleSlot option \<times> VectorAggState) \<Rightarrow>
   VectorAggState \<Rightarrow> exec_error + VectorTupleSlot option \<times> VectorAggState" where
  "VExecAgg BATCHSIZE project natts agg_fill_hash_table agg_retrieve_direct vas =
     (let node = vas_aggstate vas
      in if \<not> agg_done node
         then
           (case (case phase_aggstrategy (phases node ! phase node) of
                    AGG_HASHED \<Rightarrow>
                      agg_retrieve_hash_table BATCHSIZE project natts
                        (if \<not> table_filled node
                         then vas\<lparr>vas_aggstate := agg_fill_hash_table node\<rparr>
                         else vas)
                  | AGG_MIXED \<Rightarrow> agg_retrieve_hash_table BATCHSIZE project natts vas
                  | AGG_PLAIN \<Rightarrow> agg_retrieve_direct vas
                  | AGG_SORTED \<Rightarrow> agg_retrieve_direct vas) of
              Inl e \<Rightarrow> Inl e
            | Inr (result, vas') \<Rightarrow>
                if \<not> TupIsNull result then Inr (result, vas') else Inr (None, vas'))
         else Inr (None, vas))"

text \<open>
  A filled hash aggregation with one hash table, whose entries hold the group key and one
  accumulator; the projection of a group is the key and the accumulator.
\<close>

definition hashed_aggstate :: "TupleHashEntryData list \<Rightarrow> AggState" where
  "hashed_aggstate entries =
     example_aggstate
       \<lparr>aggstrategy := AGG_HASHED, numphases := 1,
        phases := [\<lparr>phase_aggstrategy = AGG_HASHED, numsets = 1, gset_lengths = [1],
                    sortnode = None\<rparr>],
        current_phase := 0, phase := 0, table_filled := True,
        curaggcontext := HashContext, num_hashes := 1,
        perhash := [\<lparr>hashtable = entries, hashiter = 0\<rparr>]\<rparr>"

definition group_entry :: "Datum \<Rightarrow> Datum \<Rightarrow> TupleHashEntryData" where
  "group_entry g acc =
     \<lparr>firstTuple = [datum g],
      additional = [\<lparr>transValue = acc, transValueIsNull = False, noTransValue = False\<rparr>]\<rparr>"

definition project_group :: "TupleHashEntryData \<Rightarrow> HeapTuple option" where
  "project_group entry =
     Some [firstTuple entry ! 0, datum (transValue (additional entry ! 0))]"


section \<open>Phases\<close>

text \<open>
  \<open>initialize_phase\<close> (nodeAgg.c, lines 667-727). The input sort is ended; for a new
  phase 0 or 1 the output sort is discarded, otherwise it is sorted and becomes the input
  sort (\<open>tuplesort_performsort\<close> dereferences it); if the new phase is not the last, an
  output sort is begun in the order of the next phase's \<open>Sort\<close> node (which is
  dereferenced); then the current phase is set.
\<close>

definition initialize_phase :: "AggState \<Rightarrow> nat \<Rightarrow> exec_error + AggState" where
  "initialize_phase aggstate newphase =
     (let st1 = aggstate\<lparr>sort_in := None\<rparr>
      in case (if newphase \<le> 1
               then Inr (st1\<lparr>sort_out := None\<rparr>)
               else (case sort_out st1 of
                       None \<Rightarrow> Inl NullPointerDereference
                     | Some so \<Rightarrow>
                         Inr (st1\<lparr>sort_in := Some (tuplesort_performsort so),
                                   sort_out := None\<rparr>))) of
           Inl e \<Rightarrow> Inl e
         | Inr st2 \<Rightarrow>
             (case (if newphase > 0 \<and> int newphase < int (numphases st2) - 1
                    then (if length (phases st2) \<le> newphase + 1
                          then Inl ArrayIndexOutOfRange
                          else case sortnode (phases st2 ! (newphase + 1)) of
                                 None \<Rightarrow> Inl NullPointerDereference
                               | Some ord \<Rightarrow>
                                   Inr (st2\<lparr>sort_out :=
                                             Some \<lparr>sort_order = ord, memtuples = []\<rparr>\<rparr>))
                    else Inr st2) of
                Inl e \<Rightarrow> Inl e
              | Inr st3 \<Rightarrow> Inr (st3\<lparr>current_phase := newphase, phase := newphase\<rparr>)))"

text \<open>
  The end of phase setup in \<open>VExecInitAgg\<close> (nodeAgg.c, lines 3098-3109), applied to the
  state built so far.
\<close>

definition VExecInitAgg_initial_phase :: "AggState \<Rightarrow> exec_error + AggState" where
  "VExecInitAgg_initial_phase aggstate =
     (if aggstrategy aggstate = AGG_HASHED
      then (case initialize_phase (aggstate\<lparr>current_phase := 0\<rparr>) 0 of
              Inl e \<Rightarrow> Inl e
            | Inr st \<Rightarrow> Inr (select_current_set st 0 True))
      else (case initialize_phase (aggstate\<lparr>current_phase := 1\<rparr>) 1 of
              Inl e \<Rightarrow> Inl e
            | Inr st \<Rightarrow> Inr (select_current_set st 0 False)))"

text \<open>
  The phase boundary of \<open>agg_retrieve_direct\<close> (nodeAgg.c, lines 2208-2238): when the
  input is exhausted and the last grouping set of the phase has been projected, either the
  next phase starts, or a mixed aggregation switches to its hash tables, or the
  aggregation is done.
\<close>

datatype boundary_action = NoBoundary | NextPhase | RetrieveHashTables | NoMoreGroups

definition agg_retrieve_direct_boundary ::
  "AggState \<Rightarrow> exec_error + boundary_action \<times> AggState" where
  "agg_retrieve_direct_boundary aggstate =
     (let numGroupingSets = max (numsets (phases aggstate ! phase aggstate)) 1
      in if input_done aggstate \<and> projected_set aggstate \<ge> int numGroupingSets - 1
         then
           if int (current_phase aggstate) < int (numphases aggstate) - 1
           then (case initialize_phase aggstate (current_phase aggstate + 1) of
                   Inl e \<Rightarrow> Inl e
                 | Inr st \<Rightarrow> Inr (NextPhase, st\<lparr>input_done := False, projected_set := - 1\<rparr>))
           else if aggstrategy aggstate = AGG_MIXED
           then (case initialize_phase aggstate 0 of
                   Inl e \<Rightarrow> Inl e
                 | Inr st \<Rightarrow>
                     Inr (RetrieveHashTables,
                          select_current_set
                            (st\<lparr>table_filled := True,
                                perhash := (perhash st)
                                  [0 := ResetTupleHashIterator (perhash st ! 0)]\<rparr>)
                            0 True))
           else Inr (NoMoreGroups, aggstate\<lparr>agg_done := True\<rparr>)
         else Inr (NoBoundary, aggstate))"

text \<open>
  \<open>ExecReScanAgg\<close> (nodeAgg.c, lines 4021-4134), on the fields of the model. The two
  flags are the tests \<open>outerPlan->chgParam == NULL\<close> and
  \<open>bms_overlap(node->ss.ps.chgParam, aggnode->aggParams)\<close>. Resetting the expression
  contexts, the first tuple of the group, the aggregate values and the per-group arrays
  touches nothing that the model holds.
\<close>

definition ExecReScanAgg :: "bool \<Rightarrow> bool \<Rightarrow> AggState \<Rightarrow> exec_error + AggState" where
  "ExecReScanAgg outer_params_unchanged agg_params_changed node =
     (let node1 = node\<lparr>agg_done := False\<rparr>
      in if aggstrategy node = AGG_HASHED \<and> \<not> table_filled node then Inr node1
         else if aggstrategy node = AGG_HASHED \<and> outer_params_unchanged \<and>
                 \<not> agg_params_changed
         then Inr (select_current_set
                     (node1\<lparr>perhash := (perhash node1)
                               [0 := ResetTupleHashIterator (perhash node1 ! 0)]\<rparr>)
                     0 True)
         else
           (let node2 = node1\<lparr>pertransstates :=
                           map (\<lambda>pertrans. pertrans\<lparr>sortstates :=
                                   map (\<lambda>s. None) (sortstates pertrans)\<rparr>)
                               (pertransstates node1)\<rparr>;
                node3 = (if aggstrategy node = AGG_HASHED \<or> aggstrategy node = AGG_MIXED
                         then node2\<lparr>perhash := map (\<lambda>ph. ph\<lparr>hashtable := []\<rparr>) (perhash node2),
                                    table_filled := False\<rparr>
                         else node2)
            in if aggstrategy node \<noteq> AGG_HASHED
               then (case initialize_phase node3 1 of
                       Inl e \<Rightarrow> Inl e
                     | Inr st \<Rightarrow> Inr (st\<lparr>input_done := False, projected_set := - 1\<rparr>))
               else Inr node3))"

text \<open>
  One step of execution: any of the modelled functions that run after initialization and
  receive the \<open>AggState\<close>.
\<close>

inductive exec_step :: "AggState \<Rightarrow> AggState \<Rightarrow> bool" where
  boundary: "agg_retrieve_direct_boundary st = Inr (act, st') \<Longrightarrow> exec_step st st'"
| rescan: "ExecReScanAgg unchanged changed st = Inr st' \<Longrightarrow> exec_step st st'"
| advance: "advance_transition_function st pertrans pergroupstate = (st', pertrans', pergroupstate')
            \<Longrightarrow> exec_step st st'"
| ordered: "process_ordered_aggregate_single st pertrans pergroupstate
              = Inr (st', pertrans', pergroupstate') \<Longrightarrow> exec_step st st'"
| finalize: "finalize_aggregate cxt st peragg pergroupstate = (st', pergroupstate', res)
             \<Longrightarrow> exec_step st st'"
| retrieve_hash: "agg_retrieve_hash_table BATCHSIZE project natts vas = Inr (res, vas')
                  \<Longrightarrow> exec_step (vas_aggstate vas) (vas_aggstate vas')"

definition same_phases :: "AggState \<Rightarrow> AggState \<Rightarrow> bool" where
  "same_phases a a' =
     (phases a' = phases a \<and> numphases a' = numphases a \<and>
      current_phase a' = current_phase a \<and> phase a' = phase a)"

text \<open>A sorted aggregation with two sort phases, at the end of the input of phase 1.\<close>

definition sorted_aggstate :: AggState where
  "sorted_aggstate =
     example_aggstate
       \<lparr>aggstrategy := AGG_SORTED, numphases := 3,
        phases := [\<lparr>phase_aggstrategy = AGG_PLAIN, numsets = 0, gset_lengths = [], sortnode = None\<rparr>,
                   \<lparr>phase_aggstrategy = AGG_SORTED, numsets = 1, gset_lengths = [2], sortnode = None\<rparr>,
                   \<lparr>phase_aggstrategy = AGG_SORTED, numsets = 1, gset_lengths = [1],
                    sortnode = Some id\<rparr>],
        current_phase := 1, phase := 1,
        sort_out := Some \<lparr>sort_order = id, memtuples = [[datum 1, datum 2]]\<rparr>,
        input_done := True, projected_set := 0\<rparr>"

section \<open>The scan executor (execScan.c)\<close>

text \<open>
  The fields of the scan node that \<open>VExecScan\<close> and \<open>ExecScanFetch\<close> read and write. The
  qualification is the function \<open>VExecScanQual\<close> computes on the batch in
  \<open>ecxt_scantuple\<close>: its verdict and the batch as it leaves it (a qualification marks the
  rejected rows in the skip mask). The projection is the function \<open>ExecProject\<close> computes
  from the scan batch into \<open>pi_state.resultslot\<close>. \<open>ecxt_resets\<close> counts the calls of
  \<open>ResetExprContext\<close> and \<open>nfiltered1\<close> those of \<open>InstrCountFiltered1\<close>. \<open>am_state\<close> is
  whatever the access method keeps between calls. In an \<open>EPQState\<close>, \<open>relsubs_rowmark\<close>
  records which entries are not NULL, and \<open>rowmark_tuple\<close> is the outcome of
  \<open>EvalPlanQualFetchRowMark\<close>: \<open>None\<close> when it returns false, else the slot it stored.
\<close>

record ProjectionInfo =
  pi_project :: "VectorTupleSlot \<Rightarrow> VectorTupleSlot"
  pi_resultslot :: VectorTupleSlot

record ScanExprContext =
  ecxt_scantuple :: "VectorTupleSlot option"
  ecxt_resets :: nat

record EPQState =
  relsubs_done :: "bool list"
  relsubs_slot :: "VectorTupleSlot option list"
  relsubs_rowmark :: "bool list"
  rowmark_tuple :: "VectorTupleSlot option"

record 'am VectorScanState =
  qual :: "(VectorTupleSlot \<Rightarrow> bool \<times> VectorTupleSlot) option"
  ps_ProjInfo :: "ProjectionInfo option"
  scan_ExprContext :: ScanExprContext
  ss_ScanTupleSlot :: VectorTupleSlot
  scanrelid :: nat
  es_epq_active :: "EPQState option"
  nfiltered1 :: nat
  am_state :: 'am

definition ResetExprContext :: "'am VectorScanState \<Rightarrow> 'am VectorScanState" where
  "ResetExprContext node =
     node\<lparr>scan_ExprContext := (scan_ExprContext node)
             \<lparr>ecxt_resets := ecxt_resets (scan_ExprContext node) + 1\<rparr>\<rparr>"

text \<open>
  \<open>ExecScanFetch\<close> (execScan.c, lines 62-163). The access method returns the next batch, or
  NULL, and its new state; the recheck method returns its verdict and the slot as it leaves
  it. The result is the returned pointer (\<open>None\<close> for NULL) and the node afterwards.
\<close>

definition recheck_slot ::
  "nat \<Rightarrow> ('am \<Rightarrow> VectorTupleSlot \<Rightarrow> bool \<times> VectorTupleSlot) \<Rightarrow> 'am \<Rightarrow> VectorTupleSlot \<Rightarrow>
   VectorTupleSlot" where
  "recheck_slot BATCHSIZE recheckMtd am slot =
     (case recheckMtd am slot of
        (ok, slot') \<Rightarrow> if \<not> ok then VExecClearTuple BATCHSIZE slot' else slot')"

definition ExecScanFetch ::
  "nat \<Rightarrow> ('am \<Rightarrow> VectorTupleSlot option \<times> 'am) \<Rightarrow>
   ('am \<Rightarrow> VectorTupleSlot \<Rightarrow> bool \<times> VectorTupleSlot) \<Rightarrow>
   'am VectorScanState \<Rightarrow> VectorTupleSlot option \<times> 'am VectorScanState" where
  "ExecScanFetch BATCHSIZE accessMtd recheckMtd vss =
     (let run_access = (case accessMtd (am_state vss) of
                          (slot, am') \<Rightarrow> (slot, vss\<lparr>am_state := am'\<rparr>))
      in case es_epq_active vss of
           None \<Rightarrow> run_access
         | Some epqstate \<Rightarrow>
             if scanrelid vss = 0
             then (let slot = recheck_slot BATCHSIZE recheckMtd (am_state vss)
                                (ss_ScanTupleSlot vss)
                   in (Some slot, vss\<lparr>ss_ScanTupleSlot := slot\<rparr>))
             else if relsubs_done epqstate ! (scanrelid vss - 1)
             then (let slot = VExecClearTuple BATCHSIZE (ss_ScanTupleSlot vss)
                   in (Some slot, vss\<lparr>ss_ScanTupleSlot := slot\<rparr>))
             else
               (let marked = epqstate\<lparr>relsubs_done :=
                                (relsubs_done epqstate)[scanrelid vss - 1 := True]\<rparr>
                in case relsubs_slot epqstate ! (scanrelid vss - 1) of
                     Some slot \<Rightarrow>
                       if TupIsNull (Some slot)
                       then (None, vss\<lparr>es_epq_active := Some marked\<rparr>)
                       else
                         (let slot' = recheck_slot BATCHSIZE recheckMtd (am_state vss) slot
                          in (Some slot',
                              vss\<lparr>es_epq_active := Some (marked\<lparr>relsubs_slot :=
                                     (relsubs_slot marked)
                                       [scanrelid vss - 1 := Some slot']\<rparr>)\<rparr>))
                   | None \<Rightarrow>
                       if relsubs_rowmark epqstate ! (scanrelid vss - 1)
                       then (case rowmark_tuple epqstate of
                               None \<Rightarrow> (None, vss\<lparr>es_epq_active := Some marked\<rparr>)
                             | Some slot \<Rightarrow>
                                 if TupIsNull (Some slot)
                                 then (None, vss\<lparr>es_epq_active := Some marked,
                                                 ss_ScanTupleSlot := slot\<rparr>)
                                 else
                                   (let slot' = recheck_slot BATCHSIZE recheckMtd
                                                  (am_state vss) slot
                                    in (Some slot',
                                        vss\<lparr>es_epq_active := Some marked,
                                            ss_ScanTupleSlot := slot'\<rparr>)))
                       else run_access))"

text \<open>
  \<open>VExecScan\<close> (execScan.c, lines 187-294). The \<open>for (;;)\<close> loop runs on fuel, one unit per
  fetched batch; \<open>None\<close> is a loop that has not returned within the fuel. The \<open>memcpy\<close> of
  \<open>sizeof(bool) * BATCHSIZE\<close> bytes overwrites the first \<open>BATCHSIZE\<close> entries of the
  result batch's skip mask with those of the scanned batch.
\<close>

fun VExecScan_loop ::
  "nat \<Rightarrow> nat \<Rightarrow> ('am \<Rightarrow> VectorTupleSlot option \<times> 'am) \<Rightarrow>
   ('am \<Rightarrow> VectorTupleSlot \<Rightarrow> bool \<times> VectorTupleSlot) \<Rightarrow>
   'am VectorScanState \<Rightarrow> (VectorTupleSlot option \<times> 'am VectorScanState) option" where
  "VExecScan_loop 0 BATCHSIZE accessMtd recheckMtd node = None"
| "VExecScan_loop (Suc fuel) BATCHSIZE accessMtd recheckMtd node =
     (case ExecScanFetch BATCHSIZE accessMtd recheckMtd node of
        (fetched, node1) \<Rightarrow>
          (case (if TupIsNull fetched then None else fetched) of
             None \<Rightarrow>
               (case ps_ProjInfo node1 of
                  Some projInfo \<Rightarrow>
                    Some (Some (VExecClearTuple BATCHSIZE (pi_resultslot projInfo)),
                          node1\<lparr>ps_ProjInfo := Some (projInfo\<lparr>pi_resultslot :=
                                   VExecClearTuple BATCHSIZE (pi_resultslot projInfo)\<rparr>)\<rparr>)
                | None \<Rightarrow> Some (fetched, node1))
           | Some slot \<Rightarrow>
               (case (case qual node1 of None \<Rightarrow> (True, slot) | Some q \<Rightarrow> q slot) of
                  (passed, slot') \<Rightarrow>
                    (let node2 = node1\<lparr>scan_ExprContext := (scan_ExprContext node1)
                                         \<lparr>ecxt_scantuple := Some slot'\<rparr>\<rparr>
                     in if passed
                        then (case ps_ProjInfo node2 of
                                Some projInfo \<Rightarrow>
                                  (let projected = pi_project projInfo slot';
                                       resultSlot' = projected
                                         \<lparr>skip := take BATCHSIZE (skip slot') @
                                                   drop BATCHSIZE (skip projected)\<rparr>
                                   in Some (Some resultSlot',
                                            node2\<lparr>ps_ProjInfo := Some (projInfo
                                                     \<lparr>pi_resultslot := resultSlot'\<rparr>)\<rparr>))
                              | None \<Rightarrow> Some (Some slot', node2))
                        else VExecScan_loop fuel BATCHSIZE accessMtd recheckMtd
                               (ResetExprContext (node2\<lparr>nfiltered1 := nfiltered1 node2 + 1\<rparr>))))))"

definition VExecScan ::
  "nat \<Rightarrow> nat \<Rightarrow> ('am \<Rightarrow> VectorTupleSlot option \<times> 'am) \<Rightarrow>
   ('am \<Rightarrow> VectorTupleSlot \<Rightarrow> bool \<times> VectorTupleSlot) \<Rightarrow>
   'am VectorScanState \<Rightarrow> (VectorTupleSlot option \<times> 'am VectorScanState) option" where
  "VExecScan fuel BATCHSIZE accessMtd recheckMtd node =
     (if qual node = None \<and> ps_ProjInfo node = None
      then Some (ExecScanFetch BATCHSIZE accessMtd recheckMtd (ResetExprContext node))
      else VExecScan_loop fuel BATCHSIZE accessMtd recheckMtd (ResetExprContext node))"

text \<open>
  A scan to run the model on: the access method hands out the batches of a list, one per
  call; batches have one column and four rows; the qualification keeps the rows whose value
  is greater than a bound and passes a batch that keeps a row; the projection doubles the
  column and, like a freshly cleared result slot, has every row skipped.
\<close>

definition next_batch :: "VectorTupleSlot list \<Rightarrow> VectorTupleSlot option \<times> VectorTupleSlot list" where
  "next_batch batches = (case batches of [] \<Rightarrow> (None, []) | b # bs \<Rightarrow> (Some b, bs))"

definition recheck_true :: "VectorTupleSlot list \<Rightarrow> VectorTupleSlot \<Rightarrow> bool \<times> VectorTupleSlot" where
  "recheck_true am slot = (True, slot)"

definition scan_batch :: "Datum list \<Rightarrow> bool list \<Rightarrow> VectorTupleSlot" where
  "scan_batch vals skipped =
     \<lparr>tts_empty = False, tts_shouldfree = False, tts_nvalid = 1,
      tts_values = [\<lparr>col_dim = length vals, col_values = vals,
                     col_isnull = map (\<lambda>v. False) vals\<rparr>],
      dim = length vals, bufnum = 0, tts_buffers = [], skip = skipped\<rparr>"

definition greater_than :: "Datum \<Rightarrow> VectorTupleSlot \<Rightarrow> bool \<times> VectorTupleSlot" where
  "greater_than bound slot =
     (let marks = map (\<lambda>(v, s). s \<or> \<not> bound < v)
                   (zip (col_values (tts_values slot ! 0)) (skip slot))
      in (list_ex Not marks, slot\<lparr>skip := marks\<rparr>))"

definition double_column :: "VectorTupleSlot \<Rightarrow> VectorTupleSlot" where
  "double_column slot =
     slot\<lparr>tts_values := map (\<lambda>column. column\<lparr>col_values := map (\<lambda>v. 2 * v)
                                                  (col_values column)\<rparr>) (tts_values slot),
          skip := map (\<lambda>s. True) (skip slot)\<rparr>"

definition scan_node ::
  "(VectorTupleSlot \<Rightarrow> bool \<times> VectorTupleSlot) option \<Rightarrow> ProjectionInfo option \<Rightarrow>
   VectorTupleSlot list \<Rightarrow> VectorTupleSlot list VectorScanState" where
  "scan_node q p batches =
     \<lparr>qual = q, ps_ProjInfo = p,
      scan_ExprContext = \<lparr>ecxt_scantuple = None, ecxt_resets = 0\<rparr>,
      ss_ScanTupleSlot = tts_vector_init 4 1, scanrelid = 1, es_epq_active = None,
      nfiltered1 = 0, am_state = batches\<rparr>"

definition double_projection :: ProjectionInfo where
  "double_projection = \<lparr>pi_project = double_column, pi_resultslot = tts_vector_init 4 1\<rparr>"

chapter \<open>Properties\<close>

section \<open>Strictness of the transition function\<close>

text \<open>
  C1. For a strict transition function, advancing a group with an input row in which some
  transition input (argument position \<open>1 .. numTransInputs\<close>) is null returns at once: the
  transition function is not invoked (the call log is unchanged), and the accumulator, its
  null flag and the not-yet-initialized flag are exactly as before.
\<close>

theorem strict_null_input_leaves_state:
  assumes "fn_strict (transfn pertrans)"
    and "1 \<le> i" and "i \<le> numTransInputs pertrans"
    and "isnull (args (transfn_fcinfo pertrans) ! i)"
  shows "advance_transition_function aggstate pertrans pergroupstate
           = (aggstate, pertrans, pergroupstate)"
proof -
  from assms(2,3) have "i \<in> set [1..<Suc (numTransInputs pertrans)]"
    by auto
  with assms(4)
  have "any_null_input (args (transfn_fcinfo pertrans)) (numTransInputs pertrans)"
    unfolding any_null_input_def list_ex_iff by blast
  with assms(1) show ?thesis
    by (simp add: advance_transition_function_def Let_def)
qed

theorem strict_null_input_leaves_state_witness:
  "fn_strict (transfn (example_pertrans True int4larger)) \<and>
   (1::nat) \<le> 1 \<and> 1 \<le> numTransInputs (example_pertrans True int4larger) \<and>
   isnull (args (transfn_fcinfo (example_pertrans True int4larger)) ! 1) \<and>
   advance_transition_function example_aggstate (example_pertrans True int4larger) example_pergroup
     = (example_aggstate, example_pertrans True int4larger, example_pergroup) \<and>
   transValue example_pergroup = 7"
  using strict_null_input_leaves_state
          [of "example_pertrans True int4larger" 1 example_aggstate example_pergroup]
  by (simp add: example_pertrans_def null_datum_def example_pergroup_def)

lemma initialize_aggregate_fields:
  "transfn (fst (initialize_aggregate ord aggstate pertrans pg)) = transfn pertrans"
  "transfn_fcinfo (fst (initialize_aggregate ord aggstate pertrans pg)) = transfn_fcinfo pertrans"
  "numTransInputs (fst (initialize_aggregate ord aggstate pertrans pg)) = numTransInputs pertrans"
  "transtypeByVal (fst (initialize_aggregate ord aggstate pertrans pg)) = transtypeByVal pertrans"
  by (simp_all add: initialize_aggregate_def Let_def)

lemma initialize_aggregate_pergroup:
  "snd (initialize_aggregate ord aggstate pertrans pg) =
     pg\<lparr>transValue := initValue pertrans,
        transValueIsNull := initValueIsNull pertrans,
        noTransValue := initValueIsNull pertrans\<rparr>"
  by (simp add: initialize_aggregate_def Let_def datumCopy_def)

section \<open>Adoption of the first input by a strict aggregate without initial value\<close>

text \<open>
  C2 (as amended). For a strict transition function and no declared initial value,
  \<open>initialize_aggregate\<close> leaves the group uninitialized and null; the first advance with
  an all-non-null input adopts argument 1 as the accumulator and clears both flags, with no
  call of the transition function. A later all-non-null input makes one normal call
  (accumulator in position 0, result stored) as long as the accumulator is not null; once
  the transition function has returned NULL, a later input leaves the state as it is and
  makes no call.
\<close>

theorem strict_adoption_then_calls:
  assumes strict: "fn_strict (transfn pertrans)"
    and noinit: "initValueIsNull pertrans"
    and nonnull: "\<not> any_null_input (args (transfn_fcinfo pertrans)) (numTransInputs pertrans)"
    and init: "initialize_aggregate ord aggstate pertrans pergroupstate = (pt0, pg0)"
  shows "noTransValue pg0 \<and> transValueIsNull pg0 \<and>
         advance_transition_function aggstate pt0 pg0 =
           (aggstate, pt0,
            pg0\<lparr>transValue := dvalue (args (transfn_fcinfo pertrans) ! 1),
                transValueIsNull := False, noTransValue := False\<rparr>) \<and>
         (\<forall>pg. \<not> noTransValue pg \<and> \<not> transValueIsNull pg \<longrightarrow>
            (let call_args = (args (transfn_fcinfo pertrans))
                                [0 := \<lparr>dvalue = transValue pg, isnull = False\<rparr>];
                 res = fn_addr (transfn pertrans) call_args;
                 after = advance_transition_function aggstate pt0 pg
             in transfn_calls (fst after) = transfn_calls aggstate @ [call_args] \<and>
                transValueIsNull (snd (snd after)) = isnull res \<and>
                (isnull res \<or> transValue (snd (snd after)) = dvalue res) \<and>
                \<not> noTransValue (snd (snd after)))) \<and>
         (\<forall>pg. \<not> noTransValue pg \<and> transValueIsNull pg \<longrightarrow>
            advance_transition_function aggstate pt0 pg = (aggstate, pt0, pg))"
proof -
  have pt0: "pt0 = fst (initialize_aggregate ord aggstate pertrans pergroupstate)"
    and pg0: "pg0 = snd (initialize_aggregate ord aggstate pertrans pergroupstate)"
    using init by simp_all
  note f = initialize_aggregate_fields [of ord aggstate pertrans pergroupstate, folded pt0]
  have flags: "noTransValue pg0 \<and> transValueIsNull pg0"
    using noinit by (simp add: pg0 initialize_aggregate_pergroup)
  have adopt: "advance_transition_function aggstate pt0 pg0 =
           (aggstate, pt0,
            pg0\<lparr>transValue := dvalue (args (transfn_fcinfo pertrans) ! 1),
                transValueIsNull := False, noTransValue := False\<rparr>)"
    using strict nonnull flags
    by (simp add: advance_transition_function_def Let_def f datumCopy_def)
  have call: "\<forall>pg. \<not> noTransValue pg \<and> \<not> transValueIsNull pg \<longrightarrow>
            (let call_args = (args (transfn_fcinfo pertrans))
                                [0 := \<lparr>dvalue = transValue pg, isnull = False\<rparr>];
                 res = fn_addr (transfn pertrans) call_args;
                 after = advance_transition_function aggstate pt0 pg
             in transfn_calls (fst after) = transfn_calls aggstate @ [call_args] \<and>
                transValueIsNull (snd (snd after)) = isnull res \<and>
                (isnull res \<or> transValue (snd (snd after)) = dvalue res) \<and>
                \<not> noTransValue (snd (snd after)))"
    using strict nonnull
    by (simp add: advance_transition_function_def Let_def f ExecAggTransReparent_def
          datumCopy_def)
  have skip: "\<forall>pg. \<not> noTransValue pg \<and> transValueIsNull pg \<longrightarrow>
            advance_transition_function aggstate pt0 pg = (aggstate, pt0, pg)"
    using strict nonnull
    by (simp add: advance_transition_function_def Let_def f)
  from flags adopt call skip show ?thesis by blast
qed

lemmas ex_defs = example_pertrans_def example_aggstate_def example_pergroup_def
  null_datum_def datum_def load_inputs_def start_group_def initialize_aggregate_def
  advance_transition_function_def any_null_input_def Let_def datumCopy_def
  int4larger_def returns_null_def ExecAggTransReparent_def

text \<open>
  The claim as first stated, "every later non-null input causes a normal transition-function
  call", fails for a strict transition function that returns NULL: of the inputs 5, 3, 4 the
  first is adopted, the second is passed to the function, and the third makes no call.
\<close>

theorem later_input_not_called_counterexample:
  "fn_strict (transfn (example_pertrans True returns_null)) \<and>
   initValueIsNull (example_pertrans True returns_null) \<and>
   transfn_calls (fst (advance_rows [[datum 5], [datum 3], [datum 4]]
                         (start_group (example_pertrans True returns_null))))
     = [[datum 5, datum 3]]"
  by (simp add: ex_defs)

theorem strict_adoption_then_calls_witness:
  "fn_strict (transfn (load_inputs [datum 5] (example_pertrans True int4larger))) \<and>
   initValueIsNull (load_inputs [datum 5] (example_pertrans True int4larger)) \<and>
   \<not> any_null_input (args (transfn_fcinfo (load_inputs [datum 5] (example_pertrans True int4larger)))) 1 \<and>
   advance_transition_function example_aggstate
       (load_inputs [datum 5] (example_pertrans True int4larger))
       \<lparr>transValue = 0, transValueIsNull = True, noTransValue = True\<rparr>
     = (example_aggstate, load_inputs [datum 5] (example_pertrans True int4larger),
        \<lparr>transValue = 5, transValueIsNull = False, noTransValue = False\<rparr>) \<and>
   (let after = advance_rows [[null_datum], [null_datum], [datum 5], [datum 3]]
                  (start_group (example_pertrans True int4larger))
    in transfn_calls (fst after) = [[datum 5, datum 3]] \<and>
       snd (snd after) = \<lparr>transValue = 5, transValueIsNull = False, noTransValue = False\<rparr>)"
  using strict_adoption_then_calls
          [of "load_inputs [datum 5] (example_pertrans True int4larger)" id example_aggstate
              example_pergroup
              "load_inputs [datum 5] (example_pertrans True int4larger)"
              "\<lparr>transValue = 0, transValueIsNull = True, noTransValue = True\<rparr>"]
  by (simp add: ex_defs)



section \<open>DISTINCT collapsing in sorted order\<close>

lemma collapse_equal_runs_hd:
  "collapse_equal_runs same (h # xs) = h # tl (collapse_equal_runs same (h # xs))"
  by (induction xs) auto

lemma collapse_equal_runs_remdups_adj: "collapse_equal_runs (=) xs = remdups_adj xs"
  by (induction xs rule: remdups_adj.induct) auto

lemma advance_frame:
  assumes "advance_transition_function a p g = (a', p', g')"
  shows "numDistinctCols p' = numDistinctCols p"
    and "equalfnOne p' = equalfnOne p"
    and "transfn p' = transfn p"
    and "sortstates p' = sortstates p"
    and "length (args (transfn_fcinfo p')) = length (args (transfn_fcinfo p))"
    and "args (transfn_fcinfo p') ! 1 = args (transfn_fcinfo p) ! 1"
  using assms
  by (auto simp: advance_transition_function_def Let_def split: if_splits)

lemma load_inputs_one:
  assumes "length (args (transfn_fcinfo p)) = 2"
  shows "p\<lparr>transfn_fcinfo := (transfn_fcinfo p)
            \<lparr>args := (args (transfn_fcinfo p))[1 := \<lparr>dvalue = datum1 t, isnull = isnull1 t\<rparr>]\<rparr>\<rparr>
         = load_inputs (row_of t) p"
proof -
  from assms obtain x0 x1 where "args (transfn_fcinfo p) = [x0, x1]"
    by (cases "args (transfn_fcinfo p)"; cases "tl (args (transfn_fcinfo p))") auto
  then show ?thesis by (simp add: load_inputs_def row_of_def)
qed

lemmas load_inputs_one' = load_inputs_one [unfolded One_nat_def]

lemma load_inputs_overwrites:
  assumes "length (args (transfn_fcinfo p)) = 2"
  shows "load_inputs row (load_inputs (row_of t) p) = load_inputs row p"
  by (simp add: load_inputs_def)

lemma load_inputs_length: "length (args (transfn_fcinfo (load_inputs (row_of t) p))) = 2"
  by (simp add: load_inputs_def row_of_def)

lemma advance_rows_after_load:
  assumes "length (args (transfn_fcinfo p)) = 2"
  shows "acc_of (advance_rows rows (a, load_inputs (row_of t) p, g)) = acc_of (advance_rows rows (a, p, g))"
  using assms by (cases rows) (simp_all add: acc_of_def load_inputs_overwrites)

declare process_ordered_single_loop.simps [simp del]

lemma loop_exhausted:
  assumes "memtuples ts = []"
  shows "process_ordered_single_loop ts ov oin hov oav a p g = (a, p, g)"
  using assms
  by (subst process_ordered_single_loop.simps) (simp add: tuplesort_getdatum_def)

lemma loop_skips_equal:
  assumes "memtuples ts = t # rest"
    and "length (args (transfn_fcinfo p)) = 2" and "0 < numDistinctCols p"
    and "same_value (equalfnOne p) h t"
  shows "process_ordered_single_loop ts (datum1 h) (isnull1 h) True (abbrev1 h) a p g
       = process_ordered_single_loop (ts\<lparr>memtuples := rest\<rparr>) (datum1 h) (isnull1 h) True
           (abbrev1 h) a (load_inputs (row_of t) p) g"
proof -
  have arg: "args (transfn_fcinfo (load_inputs (row_of t) p)) ! 1
               = \<lparr>dvalue = datum1 t, isnull = isnull1 t\<rparr>"
    by (simp add: load_inputs_def row_of_def)
  show ?thesis
    apply (subst process_ordered_single_loop.simps)
    using assms(1,2,3,4) arg
    by (simp add: tuplesort_getdatum_def Let_def load_inputs_one' [OF assms(2)] same_value_def)
qed

lemma loop_advances_distinct:
  assumes "memtuples ts = t # rest"
    and "length (args (transfn_fcinfo p)) = 2"
    and "\<not> same_value (equalfnOne p) h t"
    and "advance_transition_function a (load_inputs (row_of t) p) g = (a', p', g')"
  shows "process_ordered_single_loop ts (datum1 h) (isnull1 h) True (abbrev1 h) a p g
       = process_ordered_single_loop (ts\<lparr>memtuples := rest\<rparr>) (datum1 t) (isnull1 t) True
           (abbrev1 t) a' p' g'"
proof -
  have arg: "args (transfn_fcinfo (load_inputs (row_of t) p)) ! 1
               = \<lparr>dvalue = datum1 t, isnull = isnull1 t\<rparr>"
    by (simp add: load_inputs_def row_of_def)
  have old: "args (transfn_fcinfo p') ! 1 = \<lparr>dvalue = datum1 t, isnull = isnull1 t\<rparr>"
    using advance_frame(6) [OF assms(4)] arg by simp
  show ?thesis
    apply (subst process_ordered_single_loop.simps)
    using assms(1,2,3,4) arg old
    by (auto simp add: tuplesort_getdatum_def Let_def load_inputs_one' [OF assms(2)]
          same_value_def)
qed

lemma loop_advances_first:
  assumes "memtuples ts = t # rest"
    and "length (args (transfn_fcinfo p)) = 2"
    and "advance_transition_function a (load_inputs (row_of t) p) g = (a', p', g')"
  shows "process_ordered_single_loop ts ov oin False oav a p g
       = process_ordered_single_loop (ts\<lparr>memtuples := rest\<rparr>) (datum1 t) (isnull1 t) True
           (abbrev1 t) a' p' g'"
proof -
  have arg: "args (transfn_fcinfo (load_inputs (row_of t) p)) ! 1
               = \<lparr>dvalue = datum1 t, isnull = isnull1 t\<rparr>"
    by (simp add: load_inputs_def row_of_def)
  have old: "args (transfn_fcinfo p') ! 1 = \<lparr>dvalue = datum1 t, isnull = isnull1 t\<rparr>"
    using advance_frame(6) [OF assms(3)] arg by simp
  show ?thesis
    apply (subst process_ordered_single_loop.simps)
    using assms(1,2,3) arg old
    by (simp add: tuplesort_getdatum_def Let_def load_inputs_one' [OF assms(2)])
qed

lemma process_ordered_single_loop_collapses:
  assumes "length (args (transfn_fcinfo p)) = 2" and "0 < numDistinctCols p"
  shows "acc_of (process_ordered_single_loop ts (datum1 h) (isnull1 h) True (abbrev1 h) a p g)
       = acc_of (advance_rows
           (map row_of (tl (collapse_equal_runs (same_value (equalfnOne p)) (h # memtuples ts))))
           (a, p, g))"
  using assms
proof (induction "memtuples ts" arbitrary: ts h a p g)
  case Nil
  then show ?case by (simp add: loop_exhausted [OF Nil.hyps [symmetric]])
next
  case (Cons t rest)
  define ts' where "ts' = ts\<lparr>memtuples := rest\<rparr>"
  have rest: "rest = memtuples ts'" by (simp add: ts'_def)
  have mem: "memtuples ts = t # rest"
    using Cons.hyps(2) by simp
  define p1 where "p1 = load_inputs (row_of t) p"
  have p1_len: "length (args (transfn_fcinfo p1)) = 2"
    unfolding p1_def by (rule load_inputs_length)
  have p1_fields: "numDistinctCols p1 = numDistinctCols p" "equalfnOne p1 = equalfnOne p"
    by (simp_all add: p1_def load_inputs_def)
  show ?case
  proof (cases "same_value (equalfnOne p) h t")
    case True
    have "acc_of (process_ordered_single_loop ts (datum1 h) (isnull1 h) True (abbrev1 h) a p g)
        = acc_of (process_ordered_single_loop ts' (datum1 h) (isnull1 h) True (abbrev1 h) a p1 g)"
      unfolding ts'_def p1_def
      by (simp add: loop_skips_equal [OF mem Cons.prems(1) Cons.prems(2) True])
    also have "\<dots> = acc_of (advance_rows
           (map row_of (tl (collapse_equal_runs (same_value (equalfnOne p1)) (h # memtuples ts'))))
           (a, p1, g))"
      using Cons.hyps(1) [OF rest p1_len] Cons.prems(2) p1_fields by simp
    also have "\<dots> = acc_of (advance_rows
           (map row_of (tl (collapse_equal_runs (same_value (equalfnOne p)) (h # memtuples ts'))))
           (a, p, g))"
      unfolding p1_fields unfolding p1_def
      using Cons.prems(1) by (rule advance_rows_after_load)
    finally show ?thesis using True by (simp add: mem rest [symmetric])
  next
    case False
    obtain a' p' g' where adv: "advance_transition_function a p1 g = (a', p', g')"
      by (cases "advance_transition_function a p1 g") auto
    note fr = advance_frame [OF adv]
    have "acc_of (process_ordered_single_loop ts (datum1 h) (isnull1 h) True (abbrev1 h) a p g)
        = acc_of (process_ordered_single_loop ts' (datum1 t) (isnull1 t) True (abbrev1 t) a' p' g')"
      unfolding ts'_def
      by (simp add: loop_advances_distinct [OF mem Cons.prems(1) False adv [unfolded p1_def]])
    also have "\<dots> = acc_of (advance_rows
           (map row_of (tl (collapse_equal_runs (same_value (equalfnOne p')) (t # memtuples ts'))))
           (a', p', g'))"
      using Cons.hyps(1) [OF rest, of p'] fr p1_len p1_fields Cons.prems(2) by simp
    finally have loop: "acc_of (process_ordered_single_loop ts (datum1 h) (isnull1 h) True
                                  (abbrev1 h) a p g)
        = acc_of (advance_rows
           (map row_of (tl (collapse_equal_runs (same_value (equalfnOne p)) (t # rest))))
           (a', p', g'))"
      using fr(2) p1_fields(2) rest by simp
    have "tl (collapse_equal_runs (same_value (equalfnOne p)) (h # memtuples ts))
            = collapse_equal_runs (same_value (equalfnOne p)) (t # rest)"
      using False by (simp add: mem)
    also have "\<dots> = t # tl (collapse_equal_runs (same_value (equalfnOne p)) (t # rest))"
      by (rule collapse_equal_runs_hd)
    finally have "advance_rows
           (map row_of (tl (collapse_equal_runs (same_value (equalfnOne p)) (h # memtuples ts))))
           (a, p, g)
        = advance_rows
           (map row_of (tl (collapse_equal_runs (same_value (equalfnOne p)) (t # rest))))
           (a', p', g')"
      using adv by (simp add: p1_def)
    with loop show ?thesis by simp
  qed
qed


lemma process_ordered_single_loop_from_start:
  assumes "length (args (transfn_fcinfo p)) = 2" and "0 < numDistinctCols p"
  shows "acc_of (process_ordered_single_loop ts ov oin False oav a p g)
       = acc_of (advance_rows
           (map row_of (collapse_equal_runs (same_value (equalfnOne p)) (memtuples ts)))
           (a, p, g))"
proof (cases "memtuples ts")
  case Nil
  then show ?thesis by (simp add: loop_exhausted)
next
  case (Cons t rest)
  obtain a' p' g' where adv:
    "advance_transition_function a (load_inputs (row_of t) p) g = (a', p', g')"
    by (cases "advance_transition_function a (load_inputs (row_of t) p) g") auto
  note fr = advance_frame [OF adv]
  have len': "length (args (transfn_fcinfo p')) = 2"
    using fr(5) load_inputs_length by simp
  have fields: "numDistinctCols p' = numDistinctCols p" "equalfnOne p' = equalfnOne p"
    using fr(1,2) by (simp_all add: load_inputs_def)
  have "acc_of (process_ordered_single_loop ts ov oin False oav a p g)
      = acc_of (process_ordered_single_loop (ts\<lparr>memtuples := rest\<rparr>) (datum1 t) (isnull1 t)
                  True (abbrev1 t) a' p' g')"
    by (simp add: loop_advances_first [OF Cons assms(1) adv])
  also have "\<dots> = acc_of (advance_rows
           (map row_of (tl (collapse_equal_runs (same_value (equalfnOne p)) (t # rest))))
           (a', p', g'))"
    using process_ordered_single_loop_collapses [OF len', of "ts\<lparr>memtuples := rest\<rparr>" t a' g']
      assms(2) fields by simp
  finally have loop: "acc_of (process_ordered_single_loop ts ov oin False oav a p g)
      = acc_of (advance_rows
           (map row_of (tl (collapse_equal_runs (same_value (equalfnOne p)) (t # rest))))
           (a', p', g'))" .
  have "collapse_equal_runs (same_value (equalfnOne p)) (memtuples ts)
          = t # tl (collapse_equal_runs (same_value (equalfnOne p)) (t # rest))"
    unfolding Cons by (rule collapse_equal_runs_hd)
  then have "advance_rows
           (map row_of (collapse_equal_runs (same_value (equalfnOne p)) (memtuples ts)))
           (a, p, g)
        = advance_rows
           (map row_of (tl (collapse_equal_runs (same_value (equalfnOne p)) (t # rest))))
           (a', p', g')"
    using adv by simp
  with loop show ?thesis by simp
qed

lemma process_ordered_single_loop_sortstates:
  "sortstates (fst (snd (process_ordered_single_loop ts ov oin hov oav a p g))) = sortstates p"
proof (induction "memtuples ts" arbitrary: ts ov oin hov oav a p g)
  case Nil
  then show ?case by (simp add: loop_exhausted)
next
  case (Cons t rest)
  have rest: "rest = memtuples (ts\<lparr>memtuples := rest\<rparr>)" by simp
  note IH = Cons.hyps(1) [OF rest]
  show ?case
    apply (subst process_ordered_single_loop.simps)
    using Cons.hyps(2) [symmetric]
    by (auto simp: tuplesort_getdatum_def Let_def IH split: prod.splits
             dest: advance_frame(4))
qed

lemma advance_nonstrict_calls:
  assumes "\<not> fn_strict (transfn p)"
  shows "length (transfn_calls (fst (advance_transition_function a p g)))
           = Suc (length (transfn_calls a))"
  using assms by (simp add: advance_transition_function_def Let_def)

lemma advance_rows_nonstrict_calls:
  assumes "\<not> fn_strict (transfn p)"
  shows "length (transfn_calls (fst (advance_rows rows (a, p, g))))
           = length (transfn_calls a) + length rows"
  using assms
proof (induction rows arbitrary: a p g)
  case Nil
  then show ?case by simp
next
  case (Cons row rows)
  obtain a' p' g' where adv:
    "advance_transition_function a (load_inputs row p) g = (a', p', g')"
    by (cases "advance_transition_function a (load_inputs row p) g") auto
  have ns: "\<not> fn_strict (transfn (load_inputs row p))"
    using Cons.prems by (simp add: load_inputs_def)
  have "\<not> fn_strict (transfn p')"
    using advance_frame(3) [OF adv] ns by simp
  from Cons.IH [OF this, of a' g'] advance_nonstrict_calls [OF ns, of a g] adv
  show ?case by simp
qed

lemma same_value_plain:
  assumes "\<not> isnull1 x" and "\<not> isnull1 y" and "abbrev1 x = abbrev1 y"
  shows "same_value (=) x y = (datum1 x = datum1 y)"
  using assms by (simp add: same_value_def)

lemma collapse_equal_runs_values:
  assumes "\<forall>t \<in> set ts. \<not> isnull1 t \<and> abbrev1 t = c"
  shows "map datum1 (collapse_equal_runs (same_value (=)) ts) = remdups_adj (map datum1 ts)"
  using assms
proof (induction "same_value ((=) :: Datum \<Rightarrow> Datum \<Rightarrow> bool)" ts
         rule: collapse_equal_runs.induct)
  case 1
  then show ?case by simp
next
  case (2 x)
  then show ?case by simp
next
  case (3 x y xs)
  have same: "same_value (=) x y = (datum1 x = datum1 y)"
    using "3.prems" by (intro same_value_plain) auto
  have px: "\<forall>t \<in> set (x # xs). \<not> isnull1 t \<and> abbrev1 t = c"
    and py: "\<forall>t \<in> set (y # xs). \<not> isnull1 t \<and> abbrev1 t = c"
    using "3.prems" by auto
  show ?case
  proof (cases "same_value (=) x y")
    case True
    from "3.hyps"(1) [OF True px] True same show ?thesis by simp
  next
    case False
    from "3.hyps"(2) [OF False py] False same show ?thesis by simp
  qed
qed

text \<open>
  C3 (as amended). For a single-input DISTINCT aggregate processed in sorted order, each run
  of consecutive equal sorted values (both null, or equal abbreviated keys and equal under
  the DISTINCT equality operator) is passed to \<open>advance_transition_function\<close> exactly once,
  with the first value of the run: the accumulator and the log of transition-function calls
  are those of advancing once per run. An advance invokes the transition function unless the
  strictness rules skip the call or adopt the value, so for a transition function that is not
  strict the number of invocations is the number of runs. Afterwards the sort state of the
  current grouping set is NULL.
\<close>

theorem distinct_runs_advanced_once:
  assumes "0 < numDistinctCols pertrans"
    and "current_set aggstate < length (sortstates pertrans)"
    and "sortstates pertrans ! current_set aggstate = Some ts"
    and "length (args (transfn_fcinfo pertrans)) = 2"
  shows "\<exists>a p g.
      process_ordered_aggregate_single aggstate pertrans pergroupstate = Inr (a, p, g) \<and>
      sortstates p ! current_set aggstate = None \<and>
      (a, g) = acc_of (advance_rows
                 (map row_of (collapse_equal_runs (same_value (equalfnOne pertrans))
                                (sort_order ts (memtuples ts))))
                 (aggstate, pertrans, pergroupstate)) \<and>
      (fn_strict (transfn pertrans) \<or>
       length (transfn_calls a) = length (transfn_calls aggstate) +
         length (collapse_equal_runs (same_value (equalfnOne pertrans))
                   (sort_order ts (memtuples ts))))"
proof -
  define ts' where "ts' = tuplesort_performsort ts"
  obtain a p g where loop:
    "process_ordered_single_loop ts' 0 True False 0 aggstate pertrans pergroupstate = (a, p, g)"
    by (cases "process_ordered_single_loop ts' 0 True False 0 aggstate pertrans pergroupstate")
       auto
  have mem: "memtuples ts' = sort_order ts (memtuples ts)"
    by (simp add: ts'_def tuplesort_performsort_def)
  have res: "process_ordered_aggregate_single aggstate pertrans pergroupstate
       = Inr (a, p\<lparr>sortstates := (sortstates p)[current_set aggstate := None]\<rparr>, g)"
    using assms(2,3) loop
    by (simp add: process_ordered_aggregate_single_def ts'_def)
  have "sortstates p = sortstates pertrans"
    using process_ordered_single_loop_sortstates
            [of ts' 0 True False 0 aggstate pertrans pergroupstate] loop by simp
  then have released:
    "sortstates (p\<lparr>sortstates := (sortstates p)[current_set aggstate := None]\<rparr>)
       ! current_set aggstate = None"
    using assms(2) by simp
  have acc: "(a, g) = acc_of (advance_rows
                 (map row_of (collapse_equal_runs (same_value (equalfnOne pertrans))
                                (sort_order ts (memtuples ts))))
                 (aggstate, pertrans, pergroupstate))"
    using process_ordered_single_loop_from_start
            [OF assms(4) assms(1), of ts' 0 True 0 aggstate pergroupstate] loop mem
    by (simp add: acc_of_def)
  have count: "fn_strict (transfn pertrans) \<or>
       length (transfn_calls a) = length (transfn_calls aggstate) +
         length (collapse_equal_runs (same_value (equalfnOne pertrans))
                   (sort_order ts (memtuples ts)))"
  proof (cases "fn_strict (transfn pertrans)")
    case True
    then show ?thesis by simp
  next
    case False
    from advance_rows_nonstrict_calls [OF False, of
            "map row_of (collapse_equal_runs (same_value (equalfnOne pertrans))
                                (sort_order ts (memtuples ts)))" aggstate pergroupstate]
      acc
    show ?thesis by (simp add: acc_of_def)
  qed
  from res released acc count show ?thesis by blast
qed


lemma process_ordered_single_loop_Nil:
  "process_ordered_single_loop \<lparr>sort_order = so, memtuples = []\<rparr> ov oin hov oav a p g = (a, p, g)"
  by (simp add: loop_exhausted)

lemma process_ordered_single_loop_Cons:
  "process_ordered_single_loop \<lparr>sort_order = so, memtuples = t # rest\<rparr> ov oin hov oav a p g =
     (let p1 = p\<lparr>transfn_fcinfo := (transfn_fcinfo p)
                  \<lparr>args := (args (transfn_fcinfo p))[1 := \<lparr>dvalue = datum1 t, isnull = isnull1 t\<rparr>]\<rparr>\<rparr>;
          newVal = dvalue (args (transfn_fcinfo p1) ! 1);
          isNull = isnull (args (transfn_fcinfo p1) ! 1)
      in if numDistinctCols p > 0 \<and> hov \<and>
            ((oin \<and> isNull) \<or>
             (\<not> oin \<and> \<not> isNull \<and> oav = abbrev1 t \<and> equalfnOne p ov newVal))
         then process_ordered_single_loop \<lparr>sort_order = so, memtuples = rest\<rparr> ov oin hov oav a p1 g
         else (case advance_transition_function a p1 g of
                 (a', p', g') \<Rightarrow>
                   process_ordered_single_loop \<lparr>sort_order = so, memtuples = rest\<rparr>
                     (dvalue (args (transfn_fcinfo p') ! 1))
                     (isnull (args (transfn_fcinfo p') ! 1))
                     True (abbrev1 t) a' p' g'))"
  by (subst process_ordered_single_loop.simps) (simp add: tuplesort_getdatum_def Let_def)

lemmas distinct_ex_defs = distinct_pertrans_def count_pergroup_def
  process_ordered_aggregate_single_def process_ordered_single_loop_Nil
  process_ordered_single_loop_Cons
  tuplesort_performsort_def int8inc_any_def invocations_def
  sortstates_after_def

text \<open>
  Input \<open>[1,1,2,2,2,3]\<close> with a non-strict transition function: three invocations, for 1, 2
  and 3, and the sort state is released.
\<close>

theorem distinct_runs_advanced_once_witness:
  "0 < numDistinctCols (distinct_pertrans False False int8inc_any [1, 1, 2, 2, 2, 3]) \<and>
   current_set example_aggstate
     < length (sortstates (distinct_pertrans False False int8inc_any [1, 1, 2, 2, 2, 3])) \<and>
   length (args (transfn_fcinfo (distinct_pertrans False False int8inc_any [1, 1, 2, 2, 2, 3]))) = 2 \<and>
   \<not> isl (process_ordered_aggregate_single example_aggstate
            (distinct_pertrans False False int8inc_any [1, 1, 2, 2, 2, 3]) count_pergroup) \<and>
   invocations (process_ordered_aggregate_single example_aggstate
            (distinct_pertrans False False int8inc_any [1, 1, 2, 2, 2, 3]) count_pergroup)
     = [[datum 0, datum 1], [datum 1, datum 2], [datum 2, datum 3]] \<and>
   sortstates_after (process_ordered_aggregate_single example_aggstate
            (distinct_pertrans False False int8inc_any [1, 1, 2, 2, 2, 3]) count_pergroup)
     = [None] \<and>
   collapse_equal_runs (same_value (=))
       (map (\<lambda>x. \<lparr>datum1 = x, isnull1 = False, abbrev1 = 0\<rparr>) [1, 1, 2, 2, 2, 3])
     = map (\<lambda>x. \<lparr>datum1 = x, isnull1 = False, abbrev1 = 0\<rparr>) [1, 2, 3]"
  using distinct_runs_advanced_once
          [of "distinct_pertrans False False int8inc_any [1, 1, 2, 2, 2, 3]" example_aggstate
              "\<lparr>sort_order = id, memtuples = map (\<lambda>x. \<lparr>datum1 = x, isnull1 = False, abbrev1 = 0\<rparr>)
                 [1, 1, 2, 2, 2, 3]\<rparr>" count_pergroup]
  by (simp add: distinct_ex_defs ex_defs same_value_def)

text \<open>
  The claim as first stated, one transition-function invocation per run and so exactly three
  for \<open>[1,1,2,2,2,3]\<close>, fails for \<open>max(DISTINCT x)\<close>: its transition function is
  strict and it has no initial value, so the first value is adopted without a call and the
  function is invoked twice.
\<close>

theorem distinct_max_two_invocations_counterexample:
  "0 < numDistinctCols (distinct_pertrans True True int4larger [1, 1, 2, 2, 2, 3]) \<and>
   numInputs (distinct_pertrans True True int4larger [1, 1, 2, 2, 2, 3]) = 1 \<and>
   \<not> isl (process_ordered_aggregate_single example_aggstate
            (distinct_pertrans True True int4larger [1, 1, 2, 2, 2, 3])
            \<lparr>transValue = 0, transValueIsNull = True, noTransValue = True\<rparr>) \<and>
   invocations (process_ordered_aggregate_single example_aggstate
            (distinct_pertrans True True int4larger [1, 1, 2, 2, 2, 3])
            \<lparr>transValue = 0, transValueIsNull = True, noTransValue = True\<rparr>)
     = [[datum 1, datum 2], [datum 2, datum 3]]"
  by (simp add: distinct_ex_defs ex_defs)



section \<open>Finalization leaves the transition state alone\<close>

lemma finalize_aggregate_pergroup:
  "fst (snd (finalize_aggregate cxt aggstate peragg pergroupstate)) = pergroupstate"
  by (simp add: finalize_aggregate_def split: prod.splits)

lemma finalize_aggregate_frame1:
  "ps_ExprContext (fst (finalize_aggregate cxt aggstate peragg pergroupstate))
     = ps_ExprContext aggstate"
  by (simp add: finalize_aggregate_def split: prod.splits)

lemma finalize_aggregate_frame2:
  "transfn_calls (fst (finalize_aggregate cxt aggstate peragg pergroupstate))
     = transfn_calls aggstate"
  by (simp add: finalize_aggregate_def split: prod.splits)

lemma finalize_aggregate_result_cong:
  assumes "ps_ExprContext aggstate' = ps_ExprContext aggstate"
  shows "snd (snd (finalize_aggregate cxt aggstate' peragg pergroupstate))
       = snd (snd (finalize_aggregate cxt aggstate peragg pergroupstate))"
  using assms by (simp add: finalize_aggregate_def split: prod.splits)


text \<open>
  C7. \<open>finalize_aggregate\<close> returns the per-group transition state (\<open>transValue\<close>, its
  null flag and the uninitialized flag) exactly as it received it, and a second call on the
  state left by the first, with no advance in between, gives the same result.
\<close>

theorem finalize_aggregate_keeps_transition_state:
  "fst (snd (finalize_aggregate cxt aggstate peragg pergroupstate)) = pergroupstate \<and>
   snd (snd (finalize_aggregate cxt
               (fst (finalize_aggregate cxt aggstate peragg pergroupstate)) peragg
               (fst (snd (finalize_aggregate cxt aggstate peragg pergroupstate)))))
     = snd (snd (finalize_aggregate cxt aggstate peragg pergroupstate)) \<and>
   fst (snd (finalize_aggregate cxt
               (fst (finalize_aggregate cxt aggstate peragg pergroupstate)) peragg
               (fst (snd (finalize_aggregate cxt aggstate peragg pergroupstate)))))
     = pergroupstate"
proof -
  let ?first = "finalize_aggregate cxt aggstate peragg pergroupstate"
  have kept: "fst (snd ?first) = pergroupstate"
    by (rule finalize_aggregate_pergroup)
  have same: "snd (snd (finalize_aggregate cxt (fst ?first) peragg pergroupstate))
                = snd (snd ?first)"
    by (rule finalize_aggregate_result_cong) (rule finalize_aggregate_frame1)
  have kept_again: "fst (snd (finalize_aggregate cxt (fst ?first) peragg pergroupstate))
                = pergroupstate"
    by (rule finalize_aggregate_pergroup)
  show ?thesis
    unfolding kept using same kept_again by (intro conjI) (rule refl)
qed

theorem finalize_aggregate_keeps_transition_state_witness:
  "finalize_aggregate (\<lambda>d. True) example_aggstate example_peragg example_pergroup
     = (example_aggstate\<lparr>finalfn_calls := [[datum 7, datum 1]]\<rparr>, example_pergroup, datum 15) \<and>
   finalize_aggregate (\<lambda>d. True)
       (example_aggstate\<lparr>finalfn_calls := [[datum 7, datum 1]]\<rparr>) example_peragg example_pergroup
     = (example_aggstate\<lparr>finalfn_calls := [[datum 7, datum 1], [datum 7, datum 1]]\<rparr>,
        example_pergroup, datum 15) \<and>
   snd (snd (finalize_aggregate (\<lambda>d. True)
               (fst (finalize_aggregate (\<lambda>d. True) example_aggstate example_peragg example_pergroup))
               example_peragg
               (fst (snd (finalize_aggregate (\<lambda>d. True) example_aggstate example_peragg
                            example_pergroup)))))
     = datum 15"
  using finalize_aggregate_keeps_transition_state
          [of "\<lambda>d. True" example_aggstate example_peragg example_pergroup]
  by (simp add: finalize_aggregate_def finalfn_arguments_def result_in_context_def
        example_peragg_def example_pergroup_def example_aggstate_def example_finalfn_def
        datum_def OidIsValid_def InvalidOid_def MakeExpandedObjectReadOnly_def Let_def)



section \<open>No sharing for volatile aggregates\<close>

text \<open>
  C10. For an aggregate expression that contains a volatile function call,
  \<open>find_compatible_peragg\<close> reports no match (-1) and an empty list of candidate
  \<open>transno\<close>s, whatever aggregates were seen before; so the aggregate gets the next fresh
  per-agg slot, and \<open>find_compatible_pertrans\<close>, given the empty list, finds no
  transition state to share either.
\<close>

theorem volatile_aggregate_never_shared:
  assumes "contain_volatile_functions newagg"
  shows "find_compatible_peragg contain_volatile_functions newagg aggstate lastaggno = (- 1, []) \<and>
         assign_aggno (fst (find_compatible_peragg contain_volatile_functions newagg aggstate
                              lastaggno)) lastaggno
           = (lastaggno + 1, lastaggno + 1) \<and>
         find_compatible_pertrans aggstate newagg shareable' aggtransfn trtype aggserialfn
             aggdeserialfn initVal initIsNull
             (snd (find_compatible_peragg contain_volatile_functions newagg aggstate lastaggno))
           = - 1"
  using assms
  by (simp add: find_compatible_peragg_def assign_aggno_def find_compatible_pertrans_def)

lemmas sharing_ex_defs = sharing_aggstate_def sum_random_def example_aggref_def
  example_peragg_def volatile_example_def find_compatible_peragg_def assign_aggno_def
  example_aggstate_def

theorem volatile_aggregate_never_shared_witness:
  "volatile_example sum_random \<and>
   find_compatible_peragg volatile_example sum_random sharing_aggstate 1 = (- 1, []) \<and>
   assign_aggno (fst (find_compatible_peragg volatile_example sum_random sharing_aggstate 1)) 1
     = (2, 2) \<and>
   find_compatible_peragg (\<lambda>a. False) sum_random sharing_aggstate 1 = (0, []) \<and>
   find_compatible_peragg volatile_example example_aggref sharing_aggstate 1 = (1, [])"
  using volatile_aggregate_never_shared [of volatile_example sum_random sharing_aggstate 1]
  by (simp add: sharing_ex_defs upt_rec)



section \<open>The batch returned by plain and sorted aggregation\<close>










lemmas slot_ex_defs = agg_retrieve_direct_postprocess_def VExecClearTuple_def
  tts_vector_clear_def store_result_row_def InitAggResultSlot_def tts_vector_init_def
  InitializeVectorSlotColumn_def buildvtype_def InvalidBuffer_def datum_def Let_def




section \<open>Hash retrieval hands no batch to its caller\<close>

declare agg_retrieve_hash_loop.simps [simp del]

text \<open>
  C4. The claim says that hash retrieval fills the output batch and returns control to the
  caller with that batch. The code fills the batch, one row per entry, moves on to the next
  hash table or sets \<open>agg_done\<close>, and stops at capacity, but its only return statement is
  \<open>return NULL\<close>: neither \<open>agg_retrieve_hash_table\<close> nor \<open>VExecAgg\<close> in a hashed or
  mixed phase ever returns a batch.
\<close>

theorem hash_retrieval_never_returns_batch:
  assumes "phase_aggstrategy (phases (vas_aggstate vas) ! phase (vas_aggstate vas)) = AGG_HASHED \<or>
           phase_aggstrategy (phases (vas_aggstate vas) ! phase (vas_aggstate vas)) = AGG_MIXED"
  shows "(\<forall>result vas'.
            agg_retrieve_hash_table BATCHSIZE project natts vas = Inr (result, vas') \<longrightarrow>
            result = None) \<and>
         (\<forall>result vas'.
            VExecAgg BATCHSIZE project natts agg_fill_hash_table agg_retrieve_direct vas
              = Inr (result, vas') \<longrightarrow>
            result = None)"
proof -
  have hash: "\<And>v result vas'.
      agg_retrieve_hash_table BATCHSIZE project natts v = Inr (result, vas') \<Longrightarrow> result = None"
    by (auto simp: agg_retrieve_hash_table_def split: sum.splits)
  have "\<And>result vas'.
      VExecAgg BATCHSIZE project natts agg_fill_hash_table agg_retrieve_direct vas
        = Inr (result, vas') \<Longrightarrow> result = None"
    using assms
    by (auto simp: VExecAgg_def Let_def split: if_splits sum.splits dest: hash)
  with hash show ?thesis by blast
qed

text \<open>
  Two groups, capacity 4: both rows are written into the columns, the table is exhausted,
  \<open>agg_done\<close> is set, and the caller gets NULL; the batch still skips every row and is
  still flagged empty.
\<close>

lemmas hash_ex_defs = agg_retrieve_hash_table_def hashed_aggstate_def group_entry_def
  project_group_def ScanTupleHashTable_def select_current_set_def
  ResetTupleHashIterator_def example_aggstate_def VExecAgg_def TupIsNull_def

theorem hash_retrieval_never_returns_batch_witness:
  "phase_aggstrategy
     (phases (hashed_aggstate [group_entry 1 30, group_entry 2 5])
        ! phase (hashed_aggstate [group_entry 1 30, group_entry 2 5])) = AGG_HASHED \<and>
   VExecAgg 4 project_group 2 id (\<lambda>v. Inr (None, v))
       \<lparr>vas_aggstate = hashed_aggstate [group_entry 1 30, group_entry 2 5],
        resultSlot = InitAggResultSlot 4 2\<rparr>
     = Inr (None,
         \<lparr>vas_aggstate = (hashed_aggstate [group_entry 1 30, group_entry 2 5])
            \<lparr>agg_done := True,
             perhash := [\<lparr>hashtable = [group_entry 1 30, group_entry 2 5], hashiter = 2\<rparr>]\<rparr>,
          resultSlot =
            \<lparr>tts_empty = True, tts_shouldfree = False, tts_nvalid = 0,
             tts_values =
               [\<lparr>col_dim = 0, col_values = [1, 2, 0, 0],
                 col_isnull = [False, False, False, False]\<rparr>,
                \<lparr>col_dim = 0, col_values = [30, 5, 0, 0],
                 col_isnull = [False, False, False, False]\<rparr>],
             dim = 0, bufnum = 0, tts_buffers = [0, 0, 0, 0],
             skip = [True, True, True, True]\<rparr>\<rparr>)"
  using hash_retrieval_never_returns_batch
          [of "\<lparr>vas_aggstate = hashed_aggstate [group_entry 1 30, group_entry 2 5],
                resultSlot = InitAggResultSlot 4 2\<rparr>" 4 project_group 2 id "\<lambda>v. Inr (None, v)"]
  by (simp add: hash_ex_defs slot_ex_defs agg_retrieve_hash_loop.simps upt_rec
        eval_nat_numeral)


text \<open>Three groups, capacity 2: the loop stops at capacity and the caller gets NULL.\<close>

lemma hash_retrieval_capacity_break_example:
  "VExecAgg 2 project_group 2 id (\<lambda>v. Inr (None, v))
       \<lparr>vas_aggstate = hashed_aggstate [group_entry 1 30, group_entry 2 5, group_entry 3 8],
        resultSlot = InitAggResultSlot 2 2\<rparr>
     = Inr (None,
         \<lparr>vas_aggstate = (hashed_aggstate [group_entry 1 30, group_entry 2 5, group_entry 3 8])
            \<lparr>perhash := [\<lparr>hashtable = [group_entry 1 30, group_entry 2 5, group_entry 3 8],
                           hashiter = 2\<rparr>]\<rparr>,
          resultSlot =
            \<lparr>tts_empty = True, tts_shouldfree = False, tts_nvalid = 0,
             tts_values =
               [\<lparr>col_dim = 0, col_values = [1, 2], col_isnull = [False, False]\<rparr>,
                \<lparr>col_dim = 0, col_values = [30, 5], col_isnull = [False, False]\<rparr>],
             dim = 0, bufnum = 0, tts_buffers = [0, 0],
             skip = [True, True]\<rparr>\<rparr>)"
  by (simp add: hash_ex_defs slot_ex_defs agg_retrieve_hash_loop.simps upt_rec
        eval_nat_numeral)



section \<open>The phase list and the current phase\<close>

lemma initialize_phase_frame:
  assumes "initialize_phase aggstate newphase = Inr st"
  shows "phases st = phases aggstate" and "numphases st = numphases aggstate"
    and "current_phase st = newphase" and "phase st = newphase"
    and "aggstrategy st = aggstrategy aggstate"
  using assms
  by (auto simp: initialize_phase_def Let_def split: if_splits option.splits sum.splits)


lemma same_phases_refl: "same_phases a a"
  by (simp add: same_phases_def)

lemma same_phases_trans: "same_phases a b \<Longrightarrow> same_phases b c \<Longrightarrow> same_phases a c"
  by (simp add: same_phases_def)

lemma advance_same_phases:
  "same_phases a (fst (advance_transition_function a p g))"
  by (simp add: advance_transition_function_def Let_def same_phases_def)

lemma process_ordered_single_loop_same_phases:
  "same_phases a (fst (process_ordered_single_loop ts ov oin hov oav a p g))"
proof (induction "memtuples ts" arbitrary: ts ov oin hov oav a p g)
  case Nil
  then show ?case by (simp add: loop_exhausted same_phases_refl)
next
  case (Cons t rest)
  have rest: "rest = memtuples (ts\<lparr>memtuples := rest\<rparr>)" by simp
  note IH = Cons.hyps(1) [OF rest]
  let ?p1 = "p\<lparr>transfn_fcinfo := (transfn_fcinfo p)
              \<lparr>args := (args (transfn_fcinfo p))[1 := \<lparr>dvalue = datum1 t, isnull = isnull1 t\<rparr>]\<rparr>\<rparr>"
  obtain a' p' g' where adv: "advance_transition_function a ?p1 g = (a', p', g')"
    by (cases "advance_transition_function a ?p1 g") auto
  have a': "same_phases a a'"
    using advance_same_phases [of a ?p1 g] adv by simp
  show ?case
    apply (subst process_ordered_single_loop.simps)
    using Cons.hyps(2) [symmetric] adv
    by (auto simp: tuplesort_getdatum_def Let_def IH
             intro: same_phases_trans [OF a' IH])
qed

lemma process_ordered_aggregate_single_same_phases:
  assumes "process_ordered_aggregate_single a p g = Inr (a', p', g')"
  shows "same_phases a a'"
proof -
  from assms obtain ts p'' where
    "process_ordered_single_loop (tuplesort_performsort ts) 0 True False 0 a p g = (a', p'', g')"
    by (auto simp: process_ordered_aggregate_single_def
             split: if_splits option.splits prod.splits)
  with process_ordered_single_loop_same_phases [of a "tuplesort_performsort ts" 0 True False 0 p g]
  show ?thesis by simp
qed

lemma finalize_aggregate_same_phases:
  "same_phases a (fst (finalize_aggregate cxt a peragg g))"
  by (simp add: finalize_aggregate_def same_phases_def split: prod.splits)

lemma agg_retrieve_hash_loop_same_phases:
  "agg_retrieve_hash_loop B project natts a v r = Inr (a', v', r') \<Longrightarrow> same_phases a a'"
proof (induction B project natts a v r arbitrary: a' v' r' rule: agg_retrieve_hash_loop.induct)
  case (1 B project natts a v r)
  show ?case
  proof (cases "agg_done a")
    case True
    with "1.prems" show ?thesis
      by (subst (asm) agg_retrieve_hash_loop.simps) (simp add: same_phases_refl)
  next
    case nd: False
    show ?thesis
    proof (cases "length (perhash a) \<le> current_set a")
      case True
      with "1.prems" nd show ?thesis
        by (subst (asm) agg_retrieve_hash_loop.simps) simp
    next
      case inr: False
      obtain e ph where scan: "ScanTupleHashTable (perhash a ! current_set a) = (e, ph)"
        by (cases "ScanTupleHashTable (perhash a ! current_set a)") auto
      show ?thesis
      proof (cases e)
        case None
        let ?next = "(select_current_set a (current_set a + 1) True)
                        \<lparr>perhash := (perhash a)
                           [current_set a + 1 :=
                              ResetTupleHashIterator (perhash a ! (current_set a + 1))]\<rparr>"
        have next_same: "same_phases a ?next"
          by (simp add: same_phases_def select_current_set_def)
        show ?thesis
        proof (cases "current_set a + 1 < num_hashes a \<and> \<not> length (perhash a) \<le> current_set a + 1")
          case True
          with "1.prems" nd inr scan None
          have "agg_retrieve_hash_loop B project natts ?next v r = Inr (a', v', r')"
            by (subst (asm) agg_retrieve_hash_loop.simps) (simp add: Let_def)
          from "1.IH"(1) [OF nd inr scan [symmetric] None refl _ _ this] True
          have "same_phases ?next a'" by simp
          with next_same show ?thesis by (rule same_phases_trans)
        next
          case False
          with "1.prems" nd inr scan None show ?thesis
            by (subst (asm) agg_retrieve_hash_loop.simps)
               (auto simp: Let_def same_phases_def split: if_splits)
        qed
      next
        case (Some entry)
        let ?a1 = "a\<lparr>perhash := (perhash a)[current_set a := ph]\<rparr>"
        have a1_same: "same_phases a ?a1" by (simp add: same_phases_def)
        show ?thesis
        proof (cases "store_result_row natts r (project entry) (tts_values v)")
          case (Inl err)
          with "1.prems" nd inr scan Some show ?thesis
            by (subst (asm) agg_retrieve_hash_loop.simps) (simp add: Let_def)
        next
          case (Inr columns)
          show ?thesis
          proof (cases "r + 1 = B")
            case True
            with "1.prems" nd inr scan Some Inr have "a' = ?a1"
              by (subst (asm) agg_retrieve_hash_loop.simps) (simp add: Let_def)
            with a1_same show ?thesis by simp
          next
            case False
            with "1.prems" nd inr scan Some Inr
            have "agg_retrieve_hash_loop B project natts ?a1 (v\<lparr>tts_values := columns\<rparr>) (r + 1)
                    = Inr (a', v', r')"
              by (subst (asm) agg_retrieve_hash_loop.simps) (simp add: Let_def)
            from "1.IH"(2) [OF nd inr scan [symmetric] Some refl Inr False this]
            have "same_phases ?a1 a'" .
            with a1_same show ?thesis by (rule same_phases_trans)
          qed
        qed
      qed
    qed
  qed
qed


lemma initialize_phase_same_list:
  assumes "initialize_phase aggstate newphase = Inr st"
  shows "phases st = phases aggstate \<and> current_phase st = newphase"
  using initialize_phase_frame(1,3) [OF assms] by simp

lemma boundary_phase:
  assumes "agg_retrieve_direct_boundary st = Inr (act, st')"
  shows "phases st' = phases st \<and>
         (current_phase st' = current_phase st \<or> current_phase st' = current_phase st + 1 \<or>
          current_phase st' = 0)"
  using assms
  by (auto simp: agg_retrieve_direct_boundary_def Let_def select_current_set_def
           split: if_splits sum.splits dest!: initialize_phase_same_list)

lemma rescan_phase:
  assumes "ExecReScanAgg unchanged changed st = Inr st'"
  shows "phases st' = phases st \<and>
         (current_phase st' = current_phase st \<or> current_phase st' = 1)"
  using assms
  by (auto simp: ExecReScanAgg_def Let_def select_current_set_def
           split: if_splits sum.splits dest!: initialize_phase_same_list)

lemma exec_step_phase:
  assumes "exec_step st st'"
  shows "phases st' = phases st \<and>
         (current_phase st' = current_phase st \<or> current_phase st' = current_phase st + 1 \<or>
          current_phase st' = 0 \<or> current_phase st' = 1)"
  using assms
proof (cases rule: exec_step.cases)
  case (boundary act)
  from boundary_phase [OF this] show ?thesis by blast
next
  case (rescan unchanged changed)
  from rescan_phase [OF this] show ?thesis by blast
next
  case (advance pertrans pergroupstate pertrans' pergroupstate')
  with advance_same_phases [of st pertrans pergroupstate]
  show ?thesis by (simp add: same_phases_def)
next
  case (ordered pertrans pergroupstate pertrans' pergroupstate')
  from process_ordered_aggregate_single_same_phases [OF this]
  show ?thesis by (simp add: same_phases_def)
next
  case (finalize cxt peragg pergroupstate pergroupstate' res)
  with finalize_aggregate_same_phases [of st cxt peragg pergroupstate]
  show ?thesis by (simp add: same_phases_def)
next
  case (retrieve_hash BATCHSIZE project natts vas res vas')
  then obtain v r where
    "agg_retrieve_hash_loop BATCHSIZE project natts st
       (VExecClearTuple BATCHSIZE (resultSlot vas)) 0 = Inr (st', v, r)"
    by (auto simp: agg_retrieve_hash_table_def split: sum.splits)
  from agg_retrieve_hash_loop_same_phases [OF this]
  show ?thesis by (simp add: same_phases_def)
qed

lemma exec_steps_phase_list:
  assumes "exec_step\<^sup>*\<^sup>* st st'"
  shows "phases st' = phases st"
  using assms
  by (induction rule: rtranclp_induct) (auto dest: exec_step_phase)

lemma initial_phase:
  assumes "VExecInitAgg_initial_phase st = Inr st'"
  shows "phases st' = phases st \<and>
         current_phase st' = (if aggstrategy st = AGG_HASHED then 0 else 1)"
  using assms
  by (auto simp: VExecInitAgg_initial_phase_def select_current_set_def
           split: if_splits sum.splits dest!: initialize_phase_same_list)

text \<open>
  C8. No step of execution changes the phase list, over any number of steps; a step leaves
  the current-phase index where it is, moves it from \<open>p\<close> to \<open>p + 1\<close>, or resets it to 0
  or 1; \<open>initialize_phase\<close> sets exactly the index it is given; and initialization starts
  in phase 0 for the HASHED strategy and in phase 1 for PLAIN, SORTED and MIXED.
\<close>

theorem phase_list_fixed_index_steps:
  "(exec_step st st' \<longrightarrow>
      phases st' = phases st \<and>
      (current_phase st' = current_phase st \<or> current_phase st' = current_phase st + 1 \<or>
       current_phase st' = 0 \<or> current_phase st' = 1)) \<and>
   (exec_step\<^sup>*\<^sup>* st st' \<longrightarrow> phases st' = phases st) \<and>
   (initialize_phase st newphase = Inr st' \<longrightarrow>
      phases st' = phases st \<and> current_phase st' = newphase) \<and>
   (VExecInitAgg_initial_phase st = Inr st' \<longrightarrow>
      phases st' = phases st \<and>
      current_phase st' = (if aggstrategy st = AGG_HASHED then 0 else 1))"
  using exec_step_phase [of st st'] exec_steps_phase_list [of st st']
    initialize_phase_same_list [of st newphase st'] initial_phase [of st st']
  by blast


lemmas phase_ex_defs = sorted_aggstate_def example_aggstate_def hashed_aggstate_def
  agg_retrieve_direct_boundary_def initialize_phase_def VExecInitAgg_initial_phase_def
  select_current_set_def tuplesort_performsort_def Let_def

theorem phase_list_fixed_index_steps_witness:
  "agg_retrieve_direct_boundary sorted_aggstate
     = Inr (NextPhase,
            sorted_aggstate
              \<lparr>sort_in := Some \<lparr>sort_order = id, memtuples = [[datum 1, datum 2]]\<rparr>,
               sort_out := None, current_phase := 2, phase := 2,
               input_done := False, projected_set := - 1\<rparr>) \<and>
   exec_step sorted_aggstate
     (sorted_aggstate
        \<lparr>sort_in := Some \<lparr>sort_order = id, memtuples = [[datum 1, datum 2]]\<rparr>,
         sort_out := None, current_phase := 2, phase := 2,
         input_done := False, projected_set := - 1\<rparr>) \<and>
   current_phase sorted_aggstate = 1 \<and>
   phases (sorted_aggstate
        \<lparr>sort_in := Some \<lparr>sort_order = id, memtuples = [[datum 1, datum 2]]\<rparr>,
         sort_out := None, current_phase := 2, phase := 2,
         input_done := False, projected_set := - 1\<rparr>) = phases sorted_aggstate \<and>
   VExecInitAgg_initial_phase ((hashed_aggstate [])\<lparr>current_phase := 7\<rparr>)
     = Inr (hashed_aggstate []) \<and>
   VExecInitAgg_initial_phase (example_aggstate\<lparr>current_phase := 7, phase := 7\<rparr>)
     = Inr example_aggstate"
proof -
  let ?st' = "sorted_aggstate
        \<lparr>sort_in := Some \<lparr>sort_order = id, memtuples = [[datum 1, datum 2]]\<rparr>,
         sort_out := None, current_phase := 2, phase := 2,
         input_done := False, projected_set := - 1\<rparr>"
  have run: "agg_retrieve_direct_boundary sorted_aggstate = Inr (NextPhase, ?st')"
    by (simp add: phase_ex_defs)
  then have step: "exec_step sorted_aggstate ?st'"
    by (rule exec_step.boundary)
  have init: "VExecInitAgg_initial_phase ((hashed_aggstate [])\<lparr>current_phase := 7\<rparr>)
                = Inr (hashed_aggstate [])"
    "VExecInitAgg_initial_phase (example_aggstate\<lparr>current_phase := 7, phase := 7\<rparr>)
                = Inr example_aggstate"
    by (simp_all add: phase_ex_defs)
  from phase_list_fixed_index_steps [of sorted_aggstate ?st'] step run init
  show ?thesis by (simp add: sorted_aggstate_def)
qed

section \<open>A scan without qualification and projection\<close>

text \<open>
  C5. With neither a qualification nor a projection, \<open>VExecScan\<close> returns what
  \<open>ExecScanFetch\<close> returns, whatever the fuel: the loop is not entered, nothing is filtered,
  projected or copied, and the node changes only by the reset of the expression context and
  by what the fetch does. Outside an EvalPlanQual recheck the batch returned is exactly the
  one the access method returned, and the node differs only in the reset and in the access
  method's state.
\<close>

theorem scan_without_qual_and_projection_passes_through:
  assumes "qual node = None" and "ps_ProjInfo node = None"
  shows "VExecScan fuel BATCHSIZE accessMtd recheckMtd node
           = Some (ExecScanFetch BATCHSIZE accessMtd recheckMtd (ResetExprContext node)) \<and>
         (es_epq_active node = None \<longrightarrow>
            VExecScan fuel BATCHSIZE accessMtd recheckMtd node
              = Some (fst (accessMtd (am_state node)),
                      (ResetExprContext node)\<lparr>am_state := snd (accessMtd (am_state node))\<rparr>))"
  using assms
  by (simp add: VExecScan_def ExecScanFetch_def ResetExprContext_def Let_def
        split: prod.splits)

lemmas scan_ex_defs = scan_node_def next_batch_def scan_batch_def ResetExprContext_def
  ExecScanFetch_def

theorem scan_without_qual_and_projection_passes_through_witness:
  "qual (scan_node None None
           [scan_batch [5, 1, 9, 3] [False, True, False, False],
            scan_batch [2, 2, 2, 2] [False, False, False, False]]) = None \<and>
   ps_ProjInfo (scan_node None None
           [scan_batch [5, 1, 9, 3] [False, True, False, False],
            scan_batch [2, 2, 2, 2] [False, False, False, False]]) = None \<and>
   es_epq_active (scan_node None None
           [scan_batch [5, 1, 9, 3] [False, True, False, False],
            scan_batch [2, 2, 2, 2] [False, False, False, False]]) = None \<and>
   VExecScan 0 4 next_batch recheck_true
       (scan_node None None
           [scan_batch [5, 1, 9, 3] [False, True, False, False],
            scan_batch [2, 2, 2, 2] [False, False, False, False]])
     = Some (Some (scan_batch [5, 1, 9, 3] [False, True, False, False]),
             (scan_node None None [scan_batch [2, 2, 2, 2] [False, False, False, False]])
               \<lparr>scan_ExprContext := \<lparr>ecxt_scantuple = None, ecxt_resets = 1\<rparr>\<rparr>)"
  using scan_without_qual_and_projection_passes_through
          [of "scan_node None None
                 [scan_batch [5, 1, 9, 3] [False, True, False, False],
                  scan_batch [2, 2, 2, 2] [False, False, False, False]]"
              0 4 next_batch recheck_true]
  by (simp add: scan_ex_defs)

section \<open>The skip mask of a projected batch\<close>

lemma VExecClearTuple_empty: "tts_empty (VExecClearTuple BATCHSIZE slot)"
  by (simp add: VExecClearTuple_def tts_vector_clear_def)

lemma ExecScanFetch_ps_ProjInfo:
  "ExecScanFetch BATCHSIZE accessMtd recheckMtd node = (fetched, node1) \<Longrightarrow>
   ps_ProjInfo node1 = ps_ProjInfo node"
  by (auto simp: ExecScanFetch_def Let_def split: option.splits if_splits prod.splits)

lemma VExecScan_loop_projected:
  "VExecScan_loop fuel BATCHSIZE accessMtd recheckMtd node = Some (Some r, node') \<Longrightarrow>
   ps_ProjInfo node = Some projInfo \<Longrightarrow> \<not> tts_empty r \<Longrightarrow>
   \<exists>slot. ecxt_scantuple (scan_ExprContext node') = Some slot \<and>
          skip r = take BATCHSIZE (skip slot) @
                   drop BATCHSIZE (skip (pi_project projInfo slot))"
proof (induction fuel arbitrary: node)
  case 0
  then show ?case by simp
next
  case (Suc fuel)
  obtain fetched node1 where
    fetch: "ExecScanFetch BATCHSIZE accessMtd recheckMtd node = (fetched, node1)"
    by (cases "ExecScanFetch BATCHSIZE accessMtd recheckMtd node")
  have proj1: "ps_ProjInfo node1 = Some projInfo"
    using ExecScanFetch_ps_ProjInfo [OF fetch] Suc.prems(2) by simp
  show ?case
  proof (cases "TupIsNull fetched")
    case True
    with Suc.prems(1,3) fetch proj1 show ?thesis
      by (auto simp: VExecClearTuple_empty)
  next
    case False
    then obtain slot where slot: "fetched = Some slot"
      by (cases fetched) (auto simp: TupIsNull_def)
    obtain passed slot' where
      q: "(case qual node1 of None \<Rightarrow> (True, slot) | Some q \<Rightarrow> q slot) = (passed, slot')"
      by (cases "case qual node1 of None \<Rightarrow> (True, slot) | Some q \<Rightarrow> q slot")
    show ?thesis
    proof (cases passed)
      case True
      with Suc.prems(1) fetch proj1 False slot q show ?thesis
        by (auto simp: Let_def)
    next
      case notpassed: False
      let ?node3 = "ResetExprContext
                      (node1\<lparr>scan_ExprContext := (scan_ExprContext node1)
                                \<lparr>ecxt_scantuple := Some slot'\<rparr>,
                             nfiltered1 := nfiltered1 node1 + 1\<rparr>)"
      from Suc.prems(1) fetch False slot q notpassed
      have "VExecScan_loop fuel BATCHSIZE accessMtd recheckMtd ?node3 = Some (Some r, node')"
        by (simp add: Let_def)
      moreover have "ps_ProjInfo ?node3 = Some projInfo"
        using proj1 by (simp add: ResetExprContext_def)
      ultimately show ?thesis
        using Suc.IH Suc.prems(3) by blast
    qed
  qed
qed

lemma ExecScanFetch_qual:
  "ExecScanFetch BATCHSIZE accessMtd recheckMtd node = (fetched, node1) \<Longrightarrow>
   qual node1 = qual node"
  by (auto simp: ExecScanFetch_def Let_def split: option.splits if_splits prod.splits)

text \<open>
  Every non-empty batch a scan with a projection returns, after any number of filtered
  batches, is the projection of the batch left in \<open>ecxt_scantuple\<close> with that batch's
  mask in its first \<open>BATCHSIZE\<close> entries. (The only other batch returned with a projection
  is the cleared, hence empty, result slot at the end of the scan.)
\<close>

lemma VExecScan_returned_batch_skip_mask:
  assumes "VExecScan fuel BATCHSIZE accessMtd recheckMtd node = Some (Some r, node')"
    and "ps_ProjInfo node = Some projInfo"
    and "\<not> tts_empty r"
  shows "\<exists>slot. ecxt_scantuple (scan_ExprContext node') = Some slot \<and>
           skip r = take BATCHSIZE (skip slot) @
                    drop BATCHSIZE (skip (pi_project projInfo slot))"
proof -
  from assms(1,2)
  have "VExecScan_loop fuel BATCHSIZE accessMtd recheckMtd (ResetExprContext node)
          = Some (Some r, node')"
    by (simp add: VExecScan_def)
  moreover have "ps_ProjInfo (ResetExprContext node) = Some projInfo"
    using assms(2) by (simp add: ResetExprContext_def)
  ultimately show ?thesis
    using VExecScan_loop_projected assms(3) by blast
qed

text \<open>
  C6. Take the scan, with a projection configured, at the top of any iteration of its loop
  (\<open>node\<close>; at the first iteration this is the node \<open>VExecScan\<close> was called with, after the
  reset of the expression context), and let the fetch return a batch that is not empty. If
  the batch passes the qualification (or there is none), the loop returns at this iteration,
  whatever fuel is left: the result is the projection of the scanned batch, with the first
  \<open>BATCHSIZE\<close> entries of its skip mask overwritten by those of the scanned batch as the
  qualification left it, so the two masks agree at each of these entries and, both being
  \<open>BATCHSIZE\<close> entries long as the arrays of the code are, are equal; the scanned batch is
  the one left in \<open>ecxt_scantuple\<close>. If the batch fails, it is counted as filtered, the
  context is reset and the loop goes on, the projection still configured, so the same holds
  of the next batch.
\<close>

theorem projected_batch_carries_scanned_skip_mask:
  assumes "ps_ProjInfo node = Some projInfo"
    and "ExecScanFetch BATCHSIZE accessMtd recheckMtd node = (Some slot, node1)"
    and "\<not> tts_empty slot"
    and "(case qual node of None \<Rightarrow> (True, slot) | Some q \<Rightarrow> q slot) = (passed, slot')"
  shows "(passed \<longrightarrow>
            (\<exists>r. VExecScan_loop (Suc fuel) BATCHSIZE accessMtd recheckMtd node
                   = Some (Some r,
                           node1\<lparr>scan_ExprContext := (scan_ExprContext node1)
                                    \<lparr>ecxt_scantuple := Some slot'\<rparr>,
                                 ps_ProjInfo := Some (projInfo\<lparr>pi_resultslot := r\<rparr>)\<rparr>) \<and>
                 r = (pi_project projInfo slot')
                       \<lparr>skip := take BATCHSIZE (skip slot') @
                                 drop BATCHSIZE (skip (pi_project projInfo slot'))\<rparr> \<and>
                 (\<forall>i<BATCHSIZE. i < length (skip slot') \<longrightarrow> skip r ! i = skip slot' ! i) \<and>
                 (length (skip slot') = BATCHSIZE \<and>
                  length (skip (pi_project projInfo slot')) = BATCHSIZE \<longrightarrow>
                    skip r = skip slot'))) \<and>
         (\<not> passed \<longrightarrow>
            VExecScan_loop (Suc fuel) BATCHSIZE accessMtd recheckMtd node
              = VExecScan_loop fuel BATCHSIZE accessMtd recheckMtd
                  (ResetExprContext
                     (node1\<lparr>scan_ExprContext := (scan_ExprContext node1)
                                \<lparr>ecxt_scantuple := Some slot'\<rparr>,
                            nfiltered1 := nfiltered1 node1 + 1\<rparr>)) \<and>
            ps_ProjInfo
              (ResetExprContext
                 (node1\<lparr>scan_ExprContext := (scan_ExprContext node1)
                            \<lparr>ecxt_scantuple := Some slot'\<rparr>,
                        nfiltered1 := nfiltered1 node1 + 1\<rparr>)) = Some projInfo) \<and>
         (\<forall>node0. node = ResetExprContext node0 \<longrightarrow>
            VExecScan (Suc fuel) BATCHSIZE accessMtd recheckMtd node0
              = VExecScan_loop (Suc fuel) BATCHSIZE accessMtd recheckMtd node)"
proof -
  have proj1: "ps_ProjInfo node1 = Some projInfo"
    using ExecScanFetch_ps_ProjInfo [OF assms(2)] assms(1) by simp
  have qual1: "qual node1 = qual node"
    using ExecScanFetch_qual [OF assms(2)] .
  have notnull: "\<not> TupIsNull (Some slot)"
    using assms(3) by (simp add: TupIsNull_def)
  have pass: "passed \<longrightarrow>
      VExecScan_loop (Suc fuel) BATCHSIZE accessMtd recheckMtd node
        = Some (Some ((pi_project projInfo slot')
                        \<lparr>skip := take BATCHSIZE (skip slot') @
                                  drop BATCHSIZE (skip (pi_project projInfo slot'))\<rparr>),
                node1\<lparr>scan_ExprContext := (scan_ExprContext node1)
                         \<lparr>ecxt_scantuple := Some slot'\<rparr>,
                      ps_ProjInfo := Some (projInfo\<lparr>pi_resultslot :=
                        (pi_project projInfo slot')
                          \<lparr>skip := take BATCHSIZE (skip slot') @
                                    drop BATCHSIZE (skip (pi_project projInfo slot'))\<rparr>\<rparr>)\<rparr>)"
    using assms(2,4) proj1 qual1 notnull by (simp add: Let_def)
  have fail: "\<not> passed \<longrightarrow>
      VExecScan_loop (Suc fuel) BATCHSIZE accessMtd recheckMtd node
        = VExecScan_loop fuel BATCHSIZE accessMtd recheckMtd
            (ResetExprContext
               (node1\<lparr>scan_ExprContext := (scan_ExprContext node1)
                          \<lparr>ecxt_scantuple := Some slot'\<rparr>,
                      nfiltered1 := nfiltered1 node1 + 1\<rparr>))"
    using assms(2,4) proj1 qual1 notnull by (simp add: Let_def)
  have still: "ps_ProjInfo
      (ResetExprContext
         (node1\<lparr>scan_ExprContext := (scan_ExprContext node1)
                    \<lparr>ecxt_scantuple := Some slot'\<rparr>,
                nfiltered1 := nfiltered1 node1 + 1\<rparr>)) = Some projInfo"
    using proj1 by (simp add: ResetExprContext_def)
  have entry: "\<forall>node0. node = ResetExprContext node0 \<longrightarrow>
      VExecScan (Suc fuel) BATCHSIZE accessMtd recheckMtd node0
        = VExecScan_loop (Suc fuel) BATCHSIZE accessMtd recheckMtd node"
    using assms(1) by (auto simp: VExecScan_def ResetExprContext_def)
  have agree: "\<forall>i<BATCHSIZE. i < length (skip slot') \<longrightarrow>
      (take BATCHSIZE (skip slot') @ drop BATCHSIZE (skip (pi_project projInfo slot'))) ! i
        = skip slot' ! i"
    by (simp add: nth_append)
  have equal: "length (skip slot') = BATCHSIZE \<and>
      length (skip (pi_project projInfo slot')) = BATCHSIZE \<longrightarrow>
      take BATCHSIZE (skip slot') @ drop BATCHSIZE (skip (pi_project projInfo slot'))
        = skip slot'"
    by simp
  from pass agree equal
  have "passed \<longrightarrow>
      (\<exists>r. VExecScan_loop (Suc fuel) BATCHSIZE accessMtd recheckMtd node
             = Some (Some r,
                     node1\<lparr>scan_ExprContext := (scan_ExprContext node1)
                              \<lparr>ecxt_scantuple := Some slot'\<rparr>,
                           ps_ProjInfo := Some (projInfo\<lparr>pi_resultslot := r\<rparr>)\<rparr>) \<and>
           r = (pi_project projInfo slot')
                 \<lparr>skip := take BATCHSIZE (skip slot') @
                           drop BATCHSIZE (skip (pi_project projInfo slot'))\<rparr> \<and>
           (\<forall>i<BATCHSIZE. i < length (skip slot') \<longrightarrow> skip r ! i = skip slot' ! i) \<and>
           (length (skip slot') = BATCHSIZE \<and>
            length (skip (pi_project projInfo slot')) = BATCHSIZE \<longrightarrow>
              skip r = skip slot'))"
    by simp
  with fail still entry show ?thesis by blast
qed

text \<open>
  One batch under the qualification \<open>> 4\<close>, which keeps rows 0 and 2: \<open>VExecScan\<close> returns
  the projected batch, with the doubled column and the mask of the scanned batch, not the
  mask the projection produced.
\<close>

lemmas scan_proj_ex_defs = scan_ex_defs greater_than_def double_column_def
  double_projection_def TupIsNull_def VExecScan_def

theorem projected_batch_carries_scanned_skip_mask_witness:
  "ps_ProjInfo (ResetExprContext
      (scan_node (Some (greater_than 4)) (Some double_projection)
         [scan_batch [5, 1, 9, 3] [False, True, False, False]])) = Some double_projection \<and>
   ExecScanFetch 4 next_batch recheck_true
     (ResetExprContext
        (scan_node (Some (greater_than 4)) (Some double_projection)
           [scan_batch [5, 1, 9, 3] [False, True, False, False]]))
     = (Some (scan_batch [5, 1, 9, 3] [False, True, False, False]),
        ResetExprContext (scan_node (Some (greater_than 4)) (Some double_projection) [])) \<and>
   \<not> tts_empty (scan_batch [5, 1, 9, 3] [False, True, False, False]) \<and>
   (case qual (ResetExprContext
                 (scan_node (Some (greater_than 4)) (Some double_projection)
                    [scan_batch [5, 1, 9, 3] [False, True, False, False]])) of
      None \<Rightarrow> (True, scan_batch [5, 1, 9, 3] [False, True, False, False])
    | Some q \<Rightarrow> q (scan_batch [5, 1, 9, 3] [False, True, False, False]))
     = (True, scan_batch [5, 1, 9, 3] [False, True, False, True]) \<and>
   VExecScan 1 4 next_batch recheck_true
       (scan_node (Some (greater_than 4)) (Some double_projection)
          [scan_batch [5, 1, 9, 3] [False, True, False, False]])
     = Some (Some (scan_batch [10, 2, 18, 6] [False, True, False, True]),
             (scan_node (Some (greater_than 4))
                (Some (double_projection\<lparr>pi_resultslot :=
                         scan_batch [10, 2, 18, 6] [False, True, False, True]\<rparr>)) [])
               \<lparr>scan_ExprContext :=
                  \<lparr>ecxt_scantuple = Some (scan_batch [5, 1, 9, 3] [False, True, False, True]),
                   ecxt_resets = 1\<rparr>\<rparr>) \<and>
   skip (double_column (scan_batch [5, 1, 9, 3] [False, True, False, True]))
     = [True, True, True, True] \<and>
   skip (scan_batch [10, 2, 18, 6] [False, True, False, True])
     = skip (scan_batch [5, 1, 9, 3] [False, True, False, True])"
  using projected_batch_carries_scanned_skip_mask
          [where node = "ResetExprContext
                   (scan_node (Some (greater_than 4)) (Some double_projection)
                      [scan_batch [5, 1, 9, 3] [False, True, False, False]])"
             and projInfo = double_projection and BATCHSIZE = 4
             and accessMtd = next_batch and recheckMtd = recheck_true
             and slot = "scan_batch [5, 1, 9, 3] [False, True, False, False]"
             and ?node1.0 = "ResetExprContext
                   (scan_node (Some (greater_than 4)) (Some double_projection) [])"
             and passed = True
             and slot' = "scan_batch [5, 1, 9, 3] [False, True, False, True]"
             and fuel = 0]
  by (simp add: scan_proj_ex_defs Let_def)

text \<open>
  Two batches under the same qualification: the first has no row left and is filtered, the
  second is returned projected, with the mask the qualification left on it.
\<close>

lemma scan_filters_then_projects_example:
  "VExecScan 2 4 next_batch recheck_true
       (scan_node (Some (greater_than 4)) (Some double_projection)
          [scan_batch [2, 2, 2, 2] [False, False, False, False],
           scan_batch [5, 1, 9, 3] [False, True, False, False]])
     = Some (Some (scan_batch [10, 2, 18, 6] [False, True, False, True]),
             (scan_node (Some (greater_than 4))
                (Some (double_projection\<lparr>pi_resultslot :=
                         scan_batch [10, 2, 18, 6] [False, True, False, True]\<rparr>)) [])
               \<lparr>scan_ExprContext :=
                  \<lparr>ecxt_scantuple = Some (scan_batch [5, 1, 9, 3] [False, True, False, True]),
                   ecxt_resets = 2\<rparr>,
                nfiltered1 := 1\<rparr>)"
  by (simp add: scan_proj_ex_defs Let_def numeral_2_eq_2)

end
